theory Spec2Isabelle
  imports Complex_Main "HOL-Library.Multiset"
begin

section \<open>Data model of script.js\<close>

text \<open>
  JavaScript numbers are modelled as follows: scores, rankings, match numbers and
  timestamps (all produced by \<open>parseInt\<close>, counters or \<open>Date.now()\<close>) are \<open>int\<close>;
  every other quantity is a \<open>real\<close>.  \<open>Math.exp\<close> is \<open>exp\<close>, \<open>Math.sqrt\<close> is \<open>sqrt\<close>,
  \<open>Math.pow(b, n)\<close> with a non-negative integer exponent is \<open>b ^ n\<close>.  Rounding of
  IEEE doubles, \<open>NaN\<close> and the infinities are outside this model, with one exception:
  the score distribution divides by a total that underflow can make zero, so there
  underflow to zero, division by zero and the non-finite doubles are modelled.
\<close>

subsection \<open>Feature snapshot (the object returned by \<open>prepareMatchFeatures\<close>)\<close>

record basicStats_t =
  team1AvgScore :: real
  team2AvgScore :: real
  team1AvgConceded :: real
  team2AvgConceded :: real
  h2hAdvantage :: real
  locationFactor :: int
  rankingDiff :: int
  bs_matchImportance :: real
  bs_totalLine :: real
  bs_pointSpread :: real
  bs_spreadDirection :: int

record advancedStats_t =
  team1RecentForm :: real
  team2RecentForm :: real
  team1DefenseStrength :: real
  team2DefenseStrength :: real
  team1AttackStrength :: real
  team2AttackStrength :: real
  team1Consistency :: real
  team2Consistency :: real
  team1MomentumIndex :: real
  team2MomentumIndex :: real
  team1HomeAdvantage :: real
  team2HomeAdvantage :: real
  team1MatchImportancePerformance :: real
  team2MatchImportancePerformance :: real

record scoringTrends_t =
  team1Trend :: real
  team2Trend :: real
  overallTrend :: real

record cleanSheetStats_t =
  team1CleanSheetPct :: real
  team2CleanSheetPct :: real
  team1CleanSheets :: nat
  team2CleanSheets :: nat
  cs_team1Matches :: nat
  cs_team2Matches :: nat

record trends_t =
  scoring :: scoringTrends_t
  cleanSheets :: cleanSheetStats_t

record dataQuality_t =
  totalMatches :: nat
  team1Matches :: nat
  team2Matches :: nat
  h2hMatches :: nat
  dataSufficiency :: bool
  dataExcellence :: bool

record features_t =
  basicStats :: basicStats_t
  advancedStats :: advancedStats_t
  trends :: trends_t
  dataQuality :: dataQuality_t

record probabilities_t =
  team1WinProb :: real
  team2WinProb :: real
  drawProb :: real

subsection \<open>Constants\<close>

definition MIN_MATCHES_FOR_GOOD_ANALYSIS :: nat where
  "MIN_MATCHES_FOR_GOOD_ANALYSIS = 4"

definition MIN_MATCHES_FOR_EXCELLENT_ANALYSIS :: nat where
  "MIN_MATCHES_FOR_EXCELLENT_ANALYSIS = 8"

definition MIN_H2H_MATCHES :: nat where
  "MIN_H2H_MATCHES = 2"

definition W_RECENT_FORM :: real where "W_RECENT_FORM = 2.8"
definition W_H2H_MATCHES :: real where "W_H2H_MATCHES = 2.5"
definition W_OVERALL_PERFORMANCE :: real where "W_OVERALL_PERFORMANCE = 2.2"
definition W_HOME_ADVANTAGE :: real where "W_HOME_ADVANTAGE = 1.6"
definition W_RANKING :: real where "W_RANKING = 1.2"
definition W_MATCH_IMPORTANCE :: real where "W_MATCH_IMPORTANCE = 1.5"
definition W_MOMENTUM :: real where "W_MOMENTUM = 2.0"

section \<open>calculateModelV1WinProbabilities\<close>

text \<open>
  The body of \<open>calculateModelV1WinProbabilities\<close> is split at its local variables, in the
  order in which the source computes them.
\<close>

definition attackDifference :: "features_t \<Rightarrow> real" where
  "attackDifference f =
     (team1AttackStrength (advancedStats f) - team2DefenseStrength (advancedStats f)) -
     (team2AttackStrength (advancedStats f) - team1DefenseStrength (advancedStats f))"

definition normalizedRankingDiff :: "int \<Rightarrow> real" where
  "normalizedRankingDiff rd = - sgn (real_of_int rd) * min 1 (\<bar>real_of_int rd\<bar> / 20)"

definition advantageCoefficient :: "features_t \<Rightarrow> real" where
  "advantageCoefficient f =
     (let b = basicStats f; a = advancedStats f;
          c0 = attackDifference f * W_OVERALL_PERFORMANCE +
               (team1RecentForm a - team2RecentForm a) * W_RECENT_FORM +
               h2hAdvantage b * W_H2H_MATCHES +
               (team1MomentumIndex a - team2MomentumIndex a) * W_MOMENTUM;
          c1 = (if locationFactor b \<noteq> 0
                then let locationTeamAdvantage =
                           (if locationFactor b = 1 then team1HomeAdvantage a
                            else team2HomeAdvantage a)
                     in c0 + real_of_int (locationFactor b) * locationTeamAdvantage * W_HOME_ADVANTAGE
                else c0);
          c2 = (if bs_matchImportance b \<noteq> 1
                then let importanceDifference =
                           team1MatchImportancePerformance a - team2MatchImportancePerformance a
                     in c1 + (bs_matchImportance b - 1) * importanceDifference * W_MATCH_IMPORTANCE
                else c1);
          c3 = (if rankingDiff b \<noteq> 0
                then c2 + normalizedRankingDiff (rankingDiff b) * W_RANKING
                else c2)
      in c3)"

definition normalizedAdvantage :: "features_t \<Rightarrow> real" where
  "normalizedAdvantage f = max (-3) (min 3 (advantageCoefficient f))"

definition baseDrawRate :: "features_t \<Rightarrow> real" where
  "baseDrawRate f =
     (let b = basicStats f; a = advancedStats f;
          scoringRate = team1AvgScore b + team2AvgScore b;
          projectedMarginAbs = \<bar>attackDifference f\<bar>;
          r0 = 35 - (scoringRate * 4) - (projectedMarginAbs * 15);
          r1 = (if team1DefenseStrength a < 0.8 \<and> team2DefenseStrength a < 0.8
                then r0 + 10 else r0);
          r2 = (if bs_matchImportance b > 1.3
                then r1 + (bs_matchImportance b - 1.3) * 8 else r1)
      in r2)"

text \<open>The local \<open>drawProb\<close> right after \<open>Math.max(5, Math.min(45, baseDrawRate))\<close>.\<close>

definition clampedDrawProb :: "features_t \<Rightarrow> real" where
  "clampedDrawProb f = max 5 (min 45 (baseDrawRate f))"

text \<open>The three locals after the first normalization (\<open>total\<close>).\<close>

definition normalizedProbs :: "features_t \<Rightarrow> probabilities_t" where
  "normalizedProbs f =
     (let drawProb0 = clampedDrawProb f;
          team1Advantage = normalizedAdvantage f;
          baseProbTotal = 100 - drawProb0;
          baseTeam1WinProb = baseProbTotal / (1 + exp (- team1Advantage));
          baseTeam2WinProb = baseProbTotal - baseTeam1WinProb;
          total = baseTeam1WinProb + baseTeam2WinProb + drawProb0
      in \<lparr> team1WinProb = (baseTeam1WinProb / total) * 100,
           team2WinProb = (baseTeam2WinProb / total) * 100,
           drawProb = (drawProb0 / total) * 100 \<rparr>)"

text \<open>The three locals after the data-quality adjustment.\<close>

definition blendedProbs :: "features_t \<Rightarrow> probabilities_t" where
  "blendedProbs f =
     (let p = normalizedProbs f in
      if \<not> dataSufficiency (dataQuality f)
      then let reversion = 0.3 in
           \<lparr> team1WinProb = team1WinProb p * (1 - reversion) + 40 * reversion,
             team2WinProb = team2WinProb p * (1 - reversion) + 40 * reversion,
             drawProb = drawProb p * (1 - reversion) + 20 * reversion \<rparr>
      else p)"

text \<open>The three locals after \<open>Math.max(5, _)\<close>, before the final normalization.\<close>

definition flooredProbs :: "features_t \<Rightarrow> probabilities_t" where
  "flooredProbs f =
     (let p = blendedProbs f in
      \<lparr> team1WinProb = max 5 (team1WinProb p),
        team2WinProb = max 5 (team2WinProb p),
        drawProb = max 5 (drawProb p) \<rparr>)"

definition calculateModelV1WinProbabilities :: "features_t \<Rightarrow> probabilities_t" where
  "calculateModelV1WinProbabilities f =
     (let p = flooredProbs f;
          finalTotal = team1WinProb p + team2WinProb p + drawProb p
      in \<lparr> team1WinProb = (team1WinProb p / finalTotal) * 100,
           team2WinProb = (team2WinProb p / finalTotal) * 100,
           drawProb = (drawProb p / finalTotal) * 100 \<rparr>)"

section \<open>ensurePredictionConsistency\<close>

datatype winner = W_team1 | W_team2 | W_draw

definition predictedWinner :: "probabilities_t \<Rightarrow> winner" where
  "predictedWinner p =
     (let highestProb = max (team1WinProb p) (max (team2WinProb p) (drawProb p)) in
      if team1WinProb p = highestProb then W_team1
      else if team2WinProb p = highestProb then W_team2
      else W_draw)"

definition marginThreshold :: real where
  "marginThreshold = 0.25"

definition marginPredictedWinner :: "real \<Rightarrow> winner" where
  "marginPredictedWinner projectedMargin =
     (if projectedMargin > marginThreshold then W_team1
      else if projectedMargin < - marginThreshold then W_team2
      else W_draw)"

definition ensurePredictionConsistency :: "probabilities_t \<Rightarrow> real \<Rightarrow> probabilities_t \<times> real" where
  "ensurePredictionConsistency p projectedMargin =
     (let adjustedProbabilities = p;
          adjustedMargin = projectedMargin
      in if predictedWinner p = W_draw
         then (adjustedProbabilities, adjustedMargin * 0.2)
         else if predictedWinner p \<noteq> marginPredictedWinner projectedMargin
              then (case predictedWinner p of
                      W_team1 \<Rightarrow> (adjustedProbabilities, max marginThreshold (\<bar>adjustedMargin\<bar> * 0.8))
                    | W_team2 \<Rightarrow> (adjustedProbabilities, min (- marginThreshold) (- \<bar>adjustedMargin\<bar> * 0.8))
                    | W_draw \<Rightarrow> (adjustedProbabilities, adjustedMargin))
              else (adjustedProbabilities, adjustedMargin))"

section \<open>Match-record store and configuration\<close>

datatype category = Cat_h2h | Cat_team1 | Cat_team2

record match =
  matchNumber :: int
  team1Score :: int
  team2Score :: int
  totalScore :: int
  outcome :: string
  category :: category
  totalOverLine :: "bool option"
  spreadCover :: "string option"
  marginOfVictory :: int
  goalEfficiency :: real
  cleanSheet :: bool
  timestamp :: int

record matchData_t =
  h2h :: "match list"
  team1 :: "match list"
  team2 :: "match list"

record analysisResults_t =
  probabilities :: probabilities_t
  projectedTotal :: real
  projectedMargin :: real
  res_team1Name :: string
  res_team2Name :: string
  res_totalLine :: real
  res_pointSpread :: real
  res_spreadDirection :: string
  res_matchImportance :: real
  res_matchLocation :: string
  res_features :: features_t

text \<open>
  The module-level variables of the script.  \<open>lastAnalysisResults = null\<close> is \<open>None\<close>.
  The chart handles and \<open>featureImportanceScores\<close> are only read by the rendering code
  and are left out.
\<close>

record globals =
  matchData :: matchData_t
  team1Name :: string
  team2Name :: string
  team1Ranking :: int
  team2Ranking :: int
  matchImportance :: real
  matchLocation :: string
  totalLine :: real
  pointSpread :: real
  spreadDirection :: string
  lastAnalysisResults :: "analysisResults_t option"

definition initialGlobals :: globals where
  "initialGlobals =
     \<lparr> matchData = \<lparr> h2h = [], team1 = [], team2 = [] \<rparr>,
       team1Name = ''Team 1'', team2Name = ''Team 2'',
       team1Ranking = 0, team2Ranking = 0,
       matchImportance = 1, matchLocation = ''neutral'',
       totalLine = 0, pointSpread = 0, spreadDirection = ''team1'',
       lastAnalysisResults = None \<rparr>"

definition getCategory :: "category \<Rightarrow> matchData_t \<Rightarrow> match list" where
  "getCategory c d = (case c of Cat_h2h \<Rightarrow> h2h d | Cat_team1 \<Rightarrow> team1 d | Cat_team2 \<Rightarrow> team2 d)"

definition setCategory :: "category \<Rightarrow> match list \<Rightarrow> matchData_t \<Rightarrow> matchData_t" where
  "setCategory c ms d =
     (case c of Cat_h2h \<Rightarrow> d\<lparr>h2h := ms\<rparr> | Cat_team1 \<Rightarrow> d\<lparr>team1 := ms\<rparr> | Cat_team2 \<Rightarrow> d\<lparr>team2 := ms\<rparr>)"

definition getTotalMatchCount :: "globals \<Rightarrow> nat" where
  "getTotalMatchCount s =
     length (h2h (matchData s)) + length (team1 (matchData s)) + length (team2 (matchData s))"

subsection \<open>Team setup form\<close>

text \<open>
  The values read from the form.  A numeric field holds \<open>None\<close> where \<open>parseInt\<close> or
  \<open>parseFloat\<close> yields \<open>NaN\<close>.
\<close>

record teamForm =
  tf_team1 :: string
  tf_team2 :: string
  tf_team1_ranking :: "int option"
  tf_team2_ranking :: "int option"
  tf_match_importance :: "real option"
  tf_match_location :: string

definition orElse :: "'a list \<Rightarrow> 'a list \<Rightarrow> 'a list" where
  "orElse v d = (if v = [] then d else v)"

definition handleTeamSetup :: "teamForm \<Rightarrow> globals \<Rightarrow> globals" where
  "handleTeamSetup form s =
     s\<lparr> team1Name := orElse (tf_team1 form) ''Team 1'',
        team2Name := orElse (tf_team2 form) ''Team 2'',
        team1Ranking := (case tf_team1_ranking form of None \<Rightarrow> 0 | Some r \<Rightarrow> r),
        team2Ranking := (case tf_team2_ranking form of None \<Rightarrow> 0 | Some r \<Rightarrow> r),
        matchImportance :=
          (case tf_match_importance form of None \<Rightarrow> 1 | Some v \<Rightarrow> if v = 0 then 1 else v),
        matchLocation := orElse (tf_match_location form) ''neutral'' \<rparr>"

subsection \<open>Ingestion\<close>

definition calculateSpreadCover :: "globals \<Rightarrow> int \<Rightarrow> int \<Rightarrow> string option" where
  "calculateSpreadCover s t1 t2 =
     (if pointSpread s \<le> 0 then None
      else let adjustedScore = (if spreadDirection s = ''team1''
                                then real_of_int t1 - pointSpread s
                                else real_of_int t2 - pointSpread s);
               opposingScore = (if spreadDirection s = ''team1''
                                then real_of_int t2 else real_of_int t1)
           in if adjustedScore > opposingScore then Some ''Favorite Covered''
              else if adjustedScore < opposingScore then Some ''Underdog Covered''
              else Some ''Push'')"

text \<open>
  The object literal pushed by \<open>processMatchScore\<close>.  \<open>now\<close> is the reading of
  \<open>Date.now()\<close>; it and the length of the category's sequence before the push are only
  used when the \<open>timestamp\<close> argument is falsy, that is 0.
\<close>

definition newMatch :: "globals \<Rightarrow> int \<Rightarrow> category \<Rightarrow> int \<Rightarrow> int \<Rightarrow> int \<Rightarrow> int \<Rightarrow> match" where
  "newMatch s now cat matchNum score1 score2 ts =
     (let totalScore' = score1 + score2;
          t1 = (case cat of Cat_h2h \<Rightarrow> score1 | Cat_team1 \<Rightarrow> score1 | Cat_team2 \<Rightarrow> score2);
          t2 = (case cat of Cat_h2h \<Rightarrow> score2 | Cat_team1 \<Rightarrow> score2 | Cat_team2 \<Rightarrow> score1);
          outcome' =
            (case cat of
               Cat_h2h \<Rightarrow> (if t1 = t2 then ''Draw''
                           else if t1 > t2 then team1Name s @ '' Wins''
                           else team2Name s @ '' Wins'')
             | Cat_team1 \<Rightarrow> (if t1 = t2 then ''Draw''
                             else if t1 > t2 then team1Name s @ '' Wins''
                             else ''Opponent Wins'')
             | Cat_team2 \<Rightarrow> (if t1 = t2 then ''Draw''
                             else if t1 > t2 then ''Opponent Wins''
                             else team2Name s @ '' Wins''));
          marginOfVictory' = \<bar>t1 - t2\<bar>;
          goalEfficiency' = (if totalScore' > 0
                             then real_of_int (max t1 t2) / real_of_int totalScore' else 0.5);
          cleanSheet' = (t1 = 0 \<or> t2 = 0)
      in \<lparr> matchNumber = matchNum, team1Score = t1, team2Score = t2,
           totalScore = totalScore', outcome = outcome', category = cat,
           totalOverLine = (if totalLine s > 0
                            then Some (real_of_int totalScore' > totalLine s) else None),
           spreadCover = (if pointSpread s > 0 then calculateSpreadCover s t1 t2 else None),
           marginOfVictory = marginOfVictory', goalEfficiency = goalEfficiency',
           cleanSheet = cleanSheet',
           timestamp = (if ts \<noteq> 0 then ts
                        else now - int (length (getCategory cat (matchData s))) * 86400000) \<rparr>)"

text \<open>\<open>Array.prototype.sort\<close> is stable; \<open>sort_key\<close> is a stable insertion sort.\<close>

definition processMatchScore ::
  "int \<Rightarrow> category \<Rightarrow> int \<Rightarrow> int \<Rightarrow> int \<Rightarrow> int \<Rightarrow> globals \<Rightarrow> globals" where
  "processMatchScore now cat matchNum score1 score2 ts s =
     s\<lparr> matchData :=
          setCategory cat
            (sort_key timestamp
               (getCategory cat (matchData s) @ [newMatch s now cat matchNum score1 score2 ts]))
            (matchData s) \<rparr>"

text \<open>
  A parsed score array: the result of \<open>text.split(',').map(parseInt)\<close>, with \<open>None\<close> for
  \<open>NaN\<close>.  Splitting and \<open>parseInt\<close> themselves are not modelled.
\<close>

type_synonym scores = "int option list"

definition isNaN :: "int option \<Rightarrow> bool" where
  "isNaN x = (x = None)"

definition validateScores :: "scores \<Rightarrow> scores \<Rightarrow> bool" where
  "validateScores scores1 scores2 =
     (if list_ex isNaN scores1 \<or> list_ex isNaN scores2 then False
      else if list_ex (\<lambda>x. the x < 0) scores1 \<or> list_ex (\<lambda>x. the x < 0) scores2 then False
      else if length scores1 = 0 \<or> length scores2 = 0 then False
      else True)"

definition weekMs :: int where
  "weekMs = 7 * 24 * 60 * 60 * 1000"

text \<open>
  The three add handlers share one body up to the category; \<open>clock i\<close> is the reading of
  \<open>Date.now()\<close> in iteration \<open>i\<close> of the loop, also for the fallback inside
  \<open>processMatchScore\<close>.  The empty-text check that precedes parsing and the updates of the
  page are not modelled.
\<close>

definition addScores :: "category \<Rightarrow> (nat \<Rightarrow> int) \<Rightarrow> scores \<Rightarrow> scores \<Rightarrow> globals \<Rightarrow> globals" where
  "addScores cat clock scores1 scores2 s =
     (if \<not> validateScores scores1 scores2 then s
      else let s0 = s\<lparr> matchData := setCategory cat [] (matchData s) \<rparr>;
               minLength = min (length scores1) (length scores2)
           in fold (\<lambda>i st.
                      let ts = clock i - (int minLength - int i) * weekMs
                      in processMatchScore (clock i) cat (int i + 1)
                           (the (scores1 ! i)) (the (scores2 ! i)) ts st)
                   [0..<minLength] s0)"

definition handleH2HAdd :: "(nat \<Rightarrow> int) \<Rightarrow> scores \<Rightarrow> scores \<Rightarrow> globals \<Rightarrow> globals" where
  "handleH2HAdd clock team1Scores team2Scores s = addScores Cat_h2h clock team1Scores team2Scores s"

definition handleTeam1Add :: "(nat \<Rightarrow> int) \<Rightarrow> scores \<Rightarrow> scores \<Rightarrow> globals \<Rightarrow> globals" where
  "handleTeam1Add clock team1Scores opponentScores s =
     addScores Cat_team1 clock team1Scores opponentScores s"

definition handleTeam2Add :: "(nat \<Rightarrow> int) \<Rightarrow> scores \<Rightarrow> scores \<Rightarrow> globals \<Rightarrow> globals" where
  "handleTeam2Add clock team2Scores opponentScores s =
     addScores Cat_team2 clock team2Scores opponentScores s"

text \<open>The add handler of a category.\<close>

definition addHandler ::
  "category \<Rightarrow> (nat \<Rightarrow> int) \<Rightarrow> scores \<Rightarrow> scores \<Rightarrow> globals \<Rightarrow> globals" where
  "addHandler cat =
     (case cat of Cat_h2h \<Rightarrow> handleH2HAdd | Cat_team1 \<Rightarrow> handleTeam1Add
      | Cat_team2 \<Rightarrow> handleTeam2Add)"

subsection \<open>Validation before analysis\<close>

text \<open>
  \<open>String.prototype.trim\<close> on strings of Latin-1 code units: tab, line feed, vertical tab,
  form feed, carriage return, space and no-break space are stripped from both ends.
\<close>

definition isWhiteSpace :: "char \<Rightarrow> bool" where
  "isWhiteSpace c = (of_char c \<in> {9, 10, 11, 12, 13, 32, 160 :: nat})"

definition trim :: "string \<Rightarrow> string" where
  "trim str = rev (dropWhile isWhiteSpace (rev (dropWhile isWhiteSpace str)))"

text \<open>\<open>confirmed\<close> is the answer the user gives to the \<open>confirm\<close> dialog, if it is shown.\<close>

definition validateInputs :: "bool \<Rightarrow> globals \<Rightarrow> bool" where
  "validateInputs confirmed s =
     (if getTotalMatchCount s = 0 then False
      else if trim (team1Name s) = [] \<or> trim (team2Name s) = [] then False
      else if trim (team1Name s) = trim (team2Name s) then False
      else if getTotalMatchCount s < MIN_MATCHES_FOR_GOOD_ANALYSIS \<and> \<not> confirmed then False
      else True)"

subsection \<open>Betting lines\<close>

record bettingForm =
  bf_betting_line :: "real option"
  bf_point_spread :: "real option"
  bf_spread_direction :: string

definition updateSpreadCoverCalculations :: "globals \<Rightarrow> globals" where
  "updateSpreadCoverCalculations s =
     (let upd = (\<lambda>m. m\<lparr> spreadCover :=
                          (if pointSpread s > 0
                           then calculateSpreadCover s (team1Score m) (team2Score m) else None),
                        totalOverLine :=
                          (if totalLine s > 0
                           then Some (real_of_int (totalScore m) > totalLine s) else None) \<rparr>)
      in s\<lparr> matchData := \<lparr> h2h = map upd (h2h (matchData s)),
                           team1 = map upd (team1 (matchData s)),
                           team2 = map upd (team2 (matchData s)) \<rparr> \<rparr>)"

definition processAllMatchData :: "bettingForm \<Rightarrow> globals \<Rightarrow> globals" where
  "processAllMatchData form s =
     updateSpreadCoverCalculations
       (s\<lparr> totalLine := (case bf_betting_line form of None \<Rightarrow> 0 | Some v \<Rightarrow> v),
           pointSpread := (case bf_point_spread form of None \<Rightarrow> 0 | Some v \<Rightarrow> v),
           spreadDirection := bf_spread_direction form \<rparr>)"

section \<open>Statistical feature extractors\<close>

text \<open>
  Every extractor reads the module-level store and configuration, here the argument \<open>s\<close>.
  \<open>forEach((match, index) => ...)\<close> is a sum over \<open>enumerate 0\<close>; a comparator
  \<open>(a, b) => b.timestamp - a.timestamp\<close> is the stable sort on the negated timestamp.
\<close>

definition calculateCategoryAverage :: "globals \<Rightarrow> category \<Rightarrow> (match \<Rightarrow> int) \<Rightarrow> real" where
  "calculateCategoryAverage s cat property =
     (let matches = getCategory cat (matchData s) in
      if length matches = 0 then 0
      else real_of_int (sum_list (map property matches)) / real (length matches))"

definition calculateOverallTeamAverage :: "globals \<Rightarrow> string \<Rightarrow> bool \<Rightarrow> real" where
  "calculateOverallTeamAverage s teamName isTeam1 =
     (let d = matchData s;
          sum0 = sum_list (map (\<lambda>m. if isTeam1 then team1Score m else team2Score m) (h2h d));
          count0 = length (h2h d);
          teamCategory = (if isTeam1 then Cat_team1 else Cat_team2);
          teamProperty = (if isTeam1 then team1Score else team2Score);
          sum1 = sum0 + sum_list (map teamProperty (getCategory teamCategory d));
          count1 = count0 + length (getCategory teamCategory d)
      in if count1 > 0 then real_of_int sum1 / real count1 else 1.5)"

definition calculateTeamAverageConceded :: "globals \<Rightarrow> string \<Rightarrow> bool \<Rightarrow> real" where
  "calculateTeamAverageConceded s teamName isTeam1 =
     (let d = matchData s;
          sum0 = sum_list (map (\<lambda>m. if isTeam1 then team2Score m else team1Score m) (h2h d));
          count0 = length (h2h d);
          teamCategory = (if isTeam1 then Cat_team1 else Cat_team2);
          opponentProperty = (if isTeam1 then team2Score else team1Score);
          sum1 = sum0 + sum_list (map opponentProperty (getCategory teamCategory d));
          count1 = count0 + length (getCategory teamCategory d)
      in if count1 > 0 then real_of_int sum1 / real count1 else 1.5)"

definition calculateAttackStrength :: "globals \<Rightarrow> string \<Rightarrow> bool \<Rightarrow> real" where
  "calculateAttackStrength s teamName isTeam1 =
     (let avgScored = calculateOverallTeamAverage s teamName isTeam1;
          oppAvgConceded =
            (if isTeam1
             then (if length (team1 (matchData s)) > 0
                   then calculateCategoryAverage s Cat_team1 team2Score else 1.0)
             else (if length (team2 (matchData s)) > 0
                   then calculateCategoryAverage s Cat_team2 team1Score else 1.0));
          leagueAvgScored = 1.3
      in (avgScored / leagueAvgScored) * (leagueAvgScored / (max 0.5 oppAvgConceded + 0.2)))"

definition calculateDefenseStrength :: "globals \<Rightarrow> string \<Rightarrow> bool \<Rightarrow> real" where
  "calculateDefenseStrength s teamName isTeam1 =
     (let avgConceded = calculateTeamAverageConceded s teamName isTeam1;
          oppAvgScored =
            (if isTeam1
             then (if length (team1 (matchData s)) > 0
                   then calculateCategoryAverage s Cat_team1 team2Score else 1.0)
             else (if length (team2 (matchData s)) > 0
                   then calculateCategoryAverage s Cat_team2 team1Score else 1.0));
          leagueAvgConceded = 1.3
      in (avgConceded / leagueAvgConceded) * (leagueAvgConceded / (max 0.5 oppAvgScored + 0.2)))"

text \<open>The win/draw/loss code pushed to \<open>results\<close> for one match.\<close>

definition resultCode :: "string \<Rightarrow> match \<Rightarrow> int" where
  "resultCode winString m =
     (if outcome m = winString then 1 else if outcome m = ''Draw'' then 0 else - 1)"

definition calculateTeamConsistency :: "globals \<Rightarrow> string \<Rightarrow> bool \<Rightarrow> real" where
  "calculateTeamConsistency s teamName isTeam1 =
     (let d = matchData s;
          scores =
            (if isTeam1 then map team1Score (h2h d) @ map team1Score (team1 d)
             else map team2Score (h2h d) @ map team2Score (team2 d));
          results =
            (if isTeam1
             then map (resultCode (team1Name s @ '' Wins'')) (h2h d) @
                  map (resultCode (team1Name s @ '' Wins'')) (team1 d)
             else map (resultCode (team2Name s @ '' Wins'')) (h2h d) @
                  map (resultCode (team2Name s @ '' Wins'')) (team2 d))
      in if length scores < 3 then 0.5
         else
           let mean = real_of_int (sum_list scores) / real (length scores);
               squaredDiffs = map (\<lambda>val. (real_of_int val - mean) ^ 2) scores;
               variance = sum_list squaredDiffs / real (length scores);
               stdDev = sqrt variance;
               coeffVariation = (if mean > 0 then stdDev / mean else 1);
               resultConsistency =
                 (if length results \<ge> 3
                  then let sortedResults = rev results;
                           weightedChanges =
                             sum_list (map (\<lambda>i. if sortedResults ! i \<noteq> sortedResults ! (i - 1)
                                                 then (0.9::real) ^ (i - 1) else 0)
                                           [1..<length sortedResults]);
                           totalWeight =
                             sum_list (map (\<lambda>i. (0.9::real) ^ (i - 1)) [1..<length sortedResults])
                       in if totalWeight > 0 then 1 - (weightedChanges / totalWeight) else 0.5
                  else 1.0);
               scoreConsistency = max 0 (1 - (coeffVariation / 2))
           in 0.35 * scoreConsistency + 0.65 * resultConsistency)"

record momentumRow =
  mr_timestamp :: int
  mr_score :: int
  mr_opponentScore :: int
  mr_outcome :: string

definition calculateMomentumIndex :: "globals \<Rightarrow> string \<Rightarrow> bool \<Rightarrow> real" where
  "calculateMomentumIndex s teamName isTeam1 =
     (let d = matchData s;
          asTeam1 = (\<lambda>m. \<lparr> mr_timestamp = timestamp m, mr_score = team1Score m,
                            mr_opponentScore = team2Score m, mr_outcome = outcome m \<rparr>);
          asTeam2 = (\<lambda>m. \<lparr> mr_timestamp = timestamp m, mr_score = team2Score m,
                            mr_opponentScore = team1Score m, mr_outcome = outcome m \<rparr>);
          unsorted = (if isTeam1 then map asTeam1 (h2h d) @ map asTeam1 (team1 d)
                      else map asTeam2 (h2h d) @ map asTeam2 (team2 d));
          teamMatches = sort_key mr_timestamp unsorted
      in if length teamMatches < 3 then 0
         else
           let n = length teamMatches;
               weights = map (\<lambda>index. (1.8::real) ^ index / 1.8 ^ (n - 1)) [0..<n];
               scoringTrend =
                 sum_list (map (\<lambda>(index, m). real_of_int (mr_score m) * weights ! index)
                               (enumerate 0 teamMatches)) / sum_list weights;
               lastThree = drop (n - 3) teamMatches;
               recentAvgScore =
                 real_of_int (sum_list (map mr_score lastThree)) / real (min 3 n);
               overallAvgScore =
                 real_of_int (sum_list (map mr_score teamMatches)) / real n;
               recentGoalDiff =
                 real_of_int (sum_list (map (\<lambda>m. mr_score m - mr_opponentScore m) lastThree)) /
                 real (min 3 n);
               overallGoalDiff =
                 real_of_int (sum_list (map (\<lambda>m. mr_score m - mr_opponentScore m) teamMatches)) /
                 real n;
               teamWinString = (if isTeam1 then team1Name s @ '' Wins'' else team2Name s @ '' Wins'');
               recentWinPct =
                 real (length (filter (\<lambda>m. mr_outcome m = teamWinString) lastThree)) /
                 real (min 3 n);
               overallWinPct =
                 real (length (filter (\<lambda>m. mr_outcome m = teamWinString) teamMatches)) / real n;
               scoringMomentum = (recentAvgScore - overallAvgScore) / max 0.5 overallAvgScore;
               goalDiffMomentum = recentGoalDiff - overallGoalDiff;
               winMomentum = recentWinPct - overallWinPct;
               momentum = (scoringMomentum * 0.25) + (goalDiffMomentum * 0.25) + (winMomentum * 0.5)
           in max (- 1) (min 1 (momentum * 2)))"

definition calculateHomeAdvantage :: "globals \<Rightarrow> string \<Rightarrow> bool \<Rightarrow> real" where
  "calculateHomeAdvantage s teamName isTeam1 =
     (let d = matchData s;
          defaultAdvantage = 1.0;
          homeMatches = (if isTeam1 then team1 d else team2 d);
          awayMatches = h2h d
      in if length homeMatches = 0 then defaultAdvantage
         else
           let teamWinString = (if isTeam1 then team1Name s @ '' Wins'' else team2Name s @ '' Wins'');
               homeWinPct =
                 real (length (filter (\<lambda>m. outcome m = teamWinString) homeMatches)) /
                 real (length homeMatches);
               awayWinString = (if isTeam1 then team1Name s @ '' Wins'' else team2Name s @ '' Wins'');
               awayWinPct =
                 (if length awayMatches > 0
                  then real (length (filter (\<lambda>m. outcome m = awayWinString) awayMatches)) /
                       real (length awayMatches)
                  else 0.3);
               goalDiff = (\<lambda>m. if isTeam1 then team1Score m - team2Score m
                                else team2Score m - team1Score m);
               homeGoalDiff =
                 real_of_int (sum_list (map goalDiff homeMatches)) / real (length homeMatches);
               awayGoalDiff =
                 (if length awayMatches > 0
                  then real_of_int (sum_list (map goalDiff awayMatches)) / real (length awayMatches)
                  else - 0.5);
               winRatioAdvantage =
                 (if homeWinPct > 0 \<and> awayWinPct > 0 then homeWinPct / awayWinPct
                  else defaultAdvantage);
               goalDiffAdvantage = homeGoalDiff - awayGoalDiff;
               combinedAdvantage =
                 (winRatioAdvantage * 0.7) + (min 2 (max 0 (goalDiffAdvantage + 1)) * 0.3)
           in max 0.2 (min 2.0 combinedAdvantage))"

definition calculateMatchImportancePerformance :: "globals \<Rightarrow> string \<Rightarrow> bool \<Rightarrow> real" where
  "calculateMatchImportancePerformance s teamName isTeam1 =
     (let d = matchData s;
          teamMatches = (if isTeam1 then h2h d @ team1 d else h2h d @ team2 d)
      in if length teamMatches < 2 then 1.0
         else
           let consistency = calculateTeamConsistency s teamName isTeam1;
               performance =
                 (\<lambda>m. let teamScore = (if isTeam1 then team1Score m else team2Score m);
                          opponentScore = (if isTeam1 then team2Score m else team1Score m);
                          goalDiff = teamScore - opponentScore
                      in if goalDiff > 0 then (1.2::real) else if goalDiff = 0 then 1.0 else 0.8);
               totalPerformance = sum_list (map performance teamMatches);
               matchCount = length teamMatches;
               avgPerformance =
                 (if matchCount > 0 then totalPerformance / real matchCount else 1.0);
               importancePerformance = (consistency * 0.6) + (avgPerformance * 0.4)
           in max 0.5 (min 1.5 importancePerformance))"

definition calculateWeightedAverage :: "match list \<Rightarrow> (match \<Rightarrow> int) \<Rightarrow> real" where
  "calculateWeightedAverage matches valueFn =
     (let weightedSum =
            sum_list (map (\<lambda>(index, m). real_of_int (valueFn m) * (0.8::real) ^ index)
                          (enumerate 0 matches));
          totalWeight = sum_list (map (\<lambda>(index, m). (0.8::real) ^ index) (enumerate 0 matches))
      in if totalWeight > 0 then weightedSum / totalWeight else 0)"

definition calculateScoringTrends :: "globals \<Rightarrow> scoringTrends_t" where
  "calculateScoringTrends s =
     (let d = matchData s;
          newestFirst = (\<lambda>m. - timestamp m);
          allMatches = sort_key newestFirst (h2h d @ team1 d @ team2 d)
      in if length allMatches < 3
         then \<lparr> team1Trend = 0, team2Trend = 0, overallTrend = 0 \<rparr>
         else
           let recentMatches = take (min 5 (length allMatches)) allMatches;
               historicalMatches = drop (min 5 (length allMatches)) allMatches;
               recentAvgTotal = calculateWeightedAverage recentMatches totalScore;
               historicalAvgTotal =
                 (if length historicalMatches > 0
                  then real_of_int (sum_list (map totalScore historicalMatches)) /
                       real (length historicalMatches)
                  else 2.5);
               overallTrend' = recentAvgTotal - historicalAvgTotal;
               team1Matches' = sort_key newestFirst (h2h d @ team1 d);
               team2Matches' = sort_key newestFirst (h2h d @ team2 d);
               team1RecentAvg =
                 (if length team1Matches' > 0
                  then calculateWeightedAverage
                         (take (min 5 (length team1Matches')) team1Matches') team1Score
                  else 1.0);
               team1HistoricalAvg =
                 (if length team1Matches' > 0 \<and> length team1Matches' > 5
                  then real_of_int (sum_list (map team1Score (drop 5 team1Matches'))) /
                       real (length team1Matches' - 5)
                  else 1.0);
               team2Value = (\<lambda>m. if category m = Cat_h2h then team2Score m else team1Score m);
               team2RecentAvg =
                 (if length team2Matches' > 0
                  then calculateWeightedAverage
                         (take (min 5 (length team2Matches')) team2Matches') team2Value
                  else 1.0);
               team2HistoricalAvg =
                 (if length team2Matches' > 0 \<and> length team2Matches' > 5
                  then real_of_int (sum_list (map team2Value (drop 5 team2Matches'))) /
                       real (length team2Matches' - 5)
                  else 1.0)
           in \<lparr> team1Trend = team1RecentAvg - team1HistoricalAvg,
                team2Trend = team2RecentAvg - team2HistoricalAvg,
                overallTrend = overallTrend' \<rparr>)"

text \<open>The local helper \<open>applyRecencyWeight\<close>; the result is \<open>(count, weightedPct)\<close>.\<close>

definition applyRecencyWeight :: "match list \<Rightarrow> (match \<Rightarrow> bool) \<Rightarrow> nat \<times> real" where
  "applyRecencyWeight matches checkFn =
     (let sortedMatches = sort_key (\<lambda>m. - timestamp m) matches;
          weightedCount =
            sum_list (map (\<lambda>(index, m). if checkFn m then (0.9::real) ^ index else 0)
                          (enumerate 0 sortedMatches));
          totalWeight =
            sum_list (map (\<lambda>(index, m). (0.9::real) ^ index) (enumerate 0 sortedMatches))
      in (length (filter checkFn sortedMatches),
          if totalWeight > 0 then (weightedCount / totalWeight) * 100 else 0))"

text \<open>The two arrow functions passed as \<open>checkFn\<close> in \<open>calculateCleanSheetStats\<close>.\<close>

definition team1CleanSheetCheck :: "match \<Rightarrow> bool" where
  "team1CleanSheetCheck m = (team2Score m = 0)"

definition team2CleanSheetCheck :: "match \<Rightarrow> bool" where
  "team2CleanSheetCheck m =
     (if category m = Cat_h2h then team1Score m = 0 else team1Score m = 0)"

definition calculateCleanSheetStats :: "globals \<Rightarrow> cleanSheetStats_t" where
  "calculateCleanSheetStats s =
     (let d = matchData s;
          team1Stats = applyRecencyWeight (h2h d @ team1 d) team1CleanSheetCheck;
          team2Stats = applyRecencyWeight (h2h d @ team2 d) team2CleanSheetCheck
      in \<lparr> team1CleanSheetPct = snd team1Stats,
           team2CleanSheetPct = snd team2Stats,
           team1CleanSheets = fst team1Stats,
           team2CleanSheets = fst team2Stats,
           cs_team1Matches = length (h2h d) + length (team1 d),
           cs_team2Matches = length (h2h d) + length (team2 d) \<rparr>)"

definition calculateH2HAdvantage :: "globals \<Rightarrow> real" where
  "calculateH2HAdvantage s =
     (let hs = h2h (matchData s) in
      if length hs = 0 then 0
      else
        let team1Wins = length (filter (\<lambda>m. outcome m = team1Name s @ '' Wins'') hs);
            team2Wins = length (filter (\<lambda>m. outcome m = team2Name s @ '' Wins'') hs);
            advantageRatio = (real team1Wins - real team2Wins) / real (length hs);
            sortedMatches = sort_key (\<lambda>m. - timestamp m) hs;
            weightedAdvantage =
              sum_list (map (\<lambda>(index, m).
                               let weight = exp (- 0.2 * real index)
                               in if outcome m = team1Name s @ '' Wins'' then weight
                                  else if outcome m = team2Name s @ '' Wins'' then - weight
                                  else 0)
                            (enumerate 0 sortedMatches));
            totalWeight =
              sum_list (map (\<lambda>(index, m). exp (- 0.2 * real index)) (enumerate 0 sortedMatches));
            normalizedWeightedAdvantage =
              (if totalWeight > 0 then weightedAdvantage / totalWeight else 0)
        in (advantageRatio * 0.3) + (normalizedWeightedAdvantage * 0.7))"

record formRow =
  fr_win :: bool
  fr_draw :: bool
  fr_lose :: bool
  fr_timestamp :: int
  fr_score :: int
  fr_opponentScore :: int

definition formMatchScore :: "formRow \<Rightarrow> real" where
  "formMatchScore m =
     (if fr_win m
      then let margin = fr_score m - fr_opponentScore m
           in 3 + min 0.7 (real_of_int margin * 0.15) +
              (if fr_opponentScore m = 0 then 0.4 else 0)
      else if fr_draw m
      then 1 + (if fr_score m + fr_opponentScore m \<ge> 4 then 0.3 else 0)
      else (if fr_score m \<ge> 2 then 0.4 else 0) +
           (if fr_opponentScore m - fr_score m = 1 then 0.3 else 0))"

definition calculateRecentForm :: "globals \<Rightarrow> string \<Rightarrow> bool \<Rightarrow> real" where
  "calculateRecentForm s teamName isTeam1 =
     (let d = matchData s;
          t1w = team1Name s @ '' Wins'';
          t2w = team2Name s @ '' Wins'';
          unsorted =
            (if isTeam1
             then map (\<lambda>m. \<lparr> fr_win = (outcome m = t1w), fr_draw = (outcome m = ''Draw''),
                              fr_lose = (outcome m = t2w), fr_timestamp = timestamp m,
                              fr_score = team1Score m, fr_opponentScore = team2Score m \<rparr>) (h2h d) @
                  map (\<lambda>m. \<lparr> fr_win = (outcome m = t1w), fr_draw = (outcome m = ''Draw''),
                              fr_lose = (outcome m = ''Opponent Wins''), fr_timestamp = timestamp m,
                              fr_score = team1Score m, fr_opponentScore = team2Score m \<rparr>) (team1 d)
             else map (\<lambda>m. \<lparr> fr_win = (outcome m = t2w), fr_draw = (outcome m = ''Draw''),
                              fr_lose = (outcome m = t1w), fr_timestamp = timestamp m,
                              fr_score = team2Score m, fr_opponentScore = team1Score m \<rparr>) (h2h d) @
                  map (\<lambda>m. \<lparr> fr_win = (outcome m = t2w), fr_draw = (outcome m = ''Draw''),
                              fr_lose = (outcome m = ''Opponent Wins''), fr_timestamp = timestamp m,
                              fr_score = team2Score m, fr_opponentScore = team1Score m \<rparr>) (team2 d));
          sorted = sort_key (\<lambda>m. - fr_timestamp m) unsorted
      in if length sorted = 0 then 0.5
         else
           let teamMatches = take (min 5 (length sorted)) sorted;
               formScore =
                 sum_list (map (\<lambda>(index, m). formMatchScore m * (0.75::real) ^ index)
                               (enumerate 0 teamMatches));
               totalWeight =
                 sum_list (map (\<lambda>(index, m). (0.75::real) ^ index) (enumerate 0 teamMatches));
               maxPossibleScore = totalWeight * 4.0
           in formScore / maxPossibleScore)"

section \<open>Feature aggregation and the projections\<close>

definition prepareMatchFeatures :: "globals \<Rightarrow> features_t" where
  "prepareMatchFeatures s =
     \<lparr> basicStats =
         \<lparr> team1AvgScore = calculateOverallTeamAverage s (team1Name s) True,
           team2AvgScore = calculateOverallTeamAverage s (team2Name s) False,
           team1AvgConceded = calculateTeamAverageConceded s (team1Name s) True,
           team2AvgConceded = calculateTeamAverageConceded s (team2Name s) False,
           h2hAdvantage = calculateH2HAdvantage s,
           locationFactor = (if matchLocation s = ''home'' then 1
                             else if matchLocation s = ''away'' then - 1 else 0),
           rankingDiff = (if team1Ranking s \<noteq> 0 \<and> team2Ranking s \<noteq> 0
                          then team1Ranking s - team2Ranking s else 0),
           bs_matchImportance = matchImportance s,
           bs_totalLine = totalLine s,
           bs_pointSpread = pointSpread s,
           bs_spreadDirection = (if spreadDirection s = ''team1'' then 1 else - 1) \<rparr>,
       advancedStats =
         \<lparr> team1RecentForm = calculateRecentForm s (team1Name s) True,
           team2RecentForm = calculateRecentForm s (team2Name s) False,
           team1DefenseStrength = calculateDefenseStrength s (team1Name s) True,
           team2DefenseStrength = calculateDefenseStrength s (team2Name s) False,
           team1AttackStrength = calculateAttackStrength s (team1Name s) True,
           team2AttackStrength = calculateAttackStrength s (team2Name s) False,
           team1Consistency = calculateTeamConsistency s (team1Name s) True,
           team2Consistency = calculateTeamConsistency s (team2Name s) False,
           team1MomentumIndex = calculateMomentumIndex s (team1Name s) True,
           team2MomentumIndex = calculateMomentumIndex s (team2Name s) False,
           team1HomeAdvantage = calculateHomeAdvantage s (team1Name s) True,
           team2HomeAdvantage = calculateHomeAdvantage s (team2Name s) False,
           team1MatchImportancePerformance =
             calculateMatchImportancePerformance s (team1Name s) True,
           team2MatchImportancePerformance =
             calculateMatchImportancePerformance s (team2Name s) False \<rparr>,
       trends =
         \<lparr> scoring = calculateScoringTrends s,
           cleanSheets = calculateCleanSheetStats s \<rparr>,
       dataQuality =
         \<lparr> totalMatches = getTotalMatchCount s,
           team1Matches = length (team1 (matchData s)),
           team2Matches = length (team2 (matchData s)),
           h2hMatches = length (h2h (matchData s)),
           dataSufficiency = (getTotalMatchCount s \<ge> MIN_MATCHES_FOR_GOOD_ANALYSIS),
           dataExcellence = (getTotalMatchCount s \<ge> MIN_MATCHES_FOR_EXCELLENT_ANALYSIS \<and>
                             length (h2h (matchData s)) \<ge> MIN_H2H_MATCHES) \<rparr> \<rparr>"

definition calculateModelV1ProjectedTotal :: "globals \<Rightarrow> features_t \<Rightarrow> real" where
  "calculateModelV1ProjectedTotal s f =
     (let b = basicStats f; a = advancedStats f; q = dataQuality f;
          scoringTrends = scoring (trends f);
          t0 = (team1AvgScore b + team2AvgScore b + team1AvgConceded b + team2AvgConceded b) / 2;
          t1 = (if h2hMatches q \<ge> MIN_H2H_MATCHES
                then let h2hAvgTotal =
                           real_of_int (sum_list (map totalScore (h2h (matchData s)))) /
                           real (h2hMatches q);
                         h2hWeight = min 0.5 (real (h2hMatches q) * 0.08)
                     in t0 * (1 - h2hWeight) + h2hAvgTotal * h2hWeight
                else t0);
          formAdjustment = ((team1RecentForm a + team2RecentForm a) - 1) * 0.5;
          t2 = t1 + formAdjustment;
          defenseAdjustment =
            - ((1 - team1DefenseStrength a) + (1 - team2DefenseStrength a)) * 0.5;
          t3 = t2 + defenseAdjustment;
          attackAdjustment = (team1AttackStrength a + team2AttackStrength a - 2) * 0.5;
          t4 = t3 + attackAdjustment;
          t5 = (if bs_matchImportance b < 1 then t4 + (1 - bs_matchImportance b) * 0.6
                else if bs_matchImportance b > 1.3 then t4 - (bs_matchImportance b - 1.3) * 0.4
                else t4);
          t6 = (if locationFactor b \<noteq> 0 then t5 + \<bar>real_of_int (locationFactor b)\<bar> * 0.15
                else t5);
          consistencyAdjustment = ((1 - team1Consistency a) + (1 - team2Consistency a)) * 0.4;
          t7 = t6 + consistencyAdjustment;
          t8 = (if overallTrend scoringTrends \<noteq> 0 then t7 + overallTrend scoringTrends * 0.3
                else t7);
          t9 = (if \<not> dataSufficiency q
                then let leagueAverage = 2.5; reversion = 0.4
                     in t8 * (1 - reversion) + leagueAverage * reversion
                else t8)
      in max 0.5 t9)"

definition calculateModelV1ProjectedMargin :: "globals \<Rightarrow> features_t \<Rightarrow> real" where
  "calculateModelV1ProjectedMargin s f =
     (let b = basicStats f; a = advancedStats f; q = dataQuality f;
          m0 = (team1AvgScore b - team2AvgConceded b) - (team2AvgScore b - team1AvgConceded b);
          m1 = (if h2hMatches q \<ge> MIN_H2H_MATCHES
                then let h2hAvgMargin =
                           real_of_int (sum_list (map (\<lambda>m. team1Score m - team2Score m)
                                                      (h2h (matchData s)))) /
                           real (h2hMatches q);
                         h2hWeight = min 0.5 (real (h2hMatches q) * 0.08)
                     in m0 * (1 - h2hWeight) + h2hAvgMargin * h2hWeight
                else m0 + h2hAdvantage b * 0.5);
          formAdjustment = (team1RecentForm a - team2RecentForm a) * 0.8;
          m2 = m1 + formAdjustment;
          strengthAdjustment = (team1AttackStrength a - team2DefenseStrength a) -
                               (team2AttackStrength a - team1DefenseStrength a);
          m3 = m2 + strengthAdjustment * 0.5;
          momentumAdjustment = (team1MomentumIndex a - team2MomentumIndex a) * 0.5;
          m4 = m3 + momentumAdjustment;
          m5 = (if locationFactor b \<noteq> 0 then m4 + real_of_int (locationFactor b) * 0.4 else m4);
          m6 = (if rankingDiff b \<noteq> 0 then m5 + normalizedRankingDiff (rankingDiff b) * 0.3
                else m5);
          m7 = (if bs_matchImportance b > 1
                then (if m6 > 0 then m6 + (bs_matchImportance b - 1) * 0.3
                      else if m6 < 0 then m6 - (bs_matchImportance b - 1) * 0.3
                      else m6)
                else m6);
          m8 = (if \<not> dataSufficiency q
                then let reversion = 0.5 in m7 * (1 - reversion)
                else m7)
      in m8)"

section \<open>The analysis run\<close>

text \<open>
  \<open>performAnalysis\<close> up to the assignment of \<open>lastAnalysisResults\<close>.  What follows in the
  source (edges, recommendations, the score distribution and the rendering calls) writes
  neither the store nor the configuration nor \<open>lastAnalysisResults\<close>.  No step of the
  computation throws, so the \<open>catch\<close> branch is not part of the model.
\<close>

text \<open>The object assigned to \<open>lastAnalysisResults\<close> inside the \<open>try\<close> block.\<close>

definition analysisResults :: "globals \<Rightarrow> analysisResults_t" where
  "analysisResults s =
     (let features = prepareMatchFeatures s;
          probabilities' = calculateModelV1WinProbabilities features;
          projectedTotal' = calculateModelV1ProjectedTotal s features;
          projectedMargin' = calculateModelV1ProjectedMargin s features;
          adjusted = ensurePredictionConsistency probabilities' projectedMargin'
      in \<lparr> probabilities = fst adjusted,
           projectedTotal = projectedTotal',
           projectedMargin = snd adjusted,
           res_team1Name = team1Name s,
           res_team2Name = team2Name s,
           res_totalLine = totalLine s,
           res_pointSpread = pointSpread s,
           res_spreadDirection = spreadDirection s,
           res_matchImportance = matchImportance s,
           res_matchLocation = matchLocation s,
           res_features = features \<rparr>)"

definition performAnalysis :: "globals \<Rightarrow> globals" where
  "performAnalysis s =
     (if getTotalMatchCount s = 0 then s
      else s\<lparr> lastAnalysisResults := Some (analysisResults s) \<rparr>)"

text \<open>The click handler of the analyze button.\<close>

definition analyzeClick :: "bettingForm \<Rightarrow> bool \<Rightarrow> globals \<Rightarrow> globals" where
  "analyzeClick form confirmed s =
     (if \<not> validateInputs confirmed s then s
      else performAnalysis (processAllMatchData form s))"

section \<open>Score distribution\<close>

subsection \<open>Doubles with underflow and non-finite values\<close>

text \<open>
  A product, quotient or exponential whose exact value has magnitude at most \<open>2^-1075\<close>,
  half the least positive double, is rounded to zero.  \<open>fl\<close> is applied to the result of
  every such operation of \<open>poissonProbability\<close> and \<open>generateScoreDistribution\<close>.  No
  other rounding is modelled, and a zero is always \<open>+0\<close>: every zero arising here comes
  from values that are not negative.
\<close>

definition fl :: "real \<Rightarrow> real" where
  "fl x = (if \<bar>x\<bar> \<le> 1 / 2 ^ 1075 then 0 else x)"

text \<open>
  A double: finite, an infinity (\<open>Inf True\<close> is \<open>+Infinity\<close>, \<open>Inf False\<close> is \<open>-Infinity\<close>),
  or \<open>NaN\<close>.
\<close>

datatype jsnum = Fin real | Inf bool | NaN

fun jsAdd :: "jsnum \<Rightarrow> jsnum \<Rightarrow> jsnum" where
  "jsAdd NaN _ = NaN"
| "jsAdd _ NaN = NaN"
| "jsAdd (Fin a) (Fin b) = Fin (a + b)"
| "jsAdd (Fin a) (Inf s) = Inf s"
| "jsAdd (Inf s) (Fin b) = Inf s"
| "jsAdd (Inf s) (Inf t) = (if s = t then Inf s else NaN)"

fun jsNeg :: "jsnum \<Rightarrow> jsnum" where
  "jsNeg (Fin a) = Fin (- a)"
| "jsNeg (Inf s) = Inf (\<not> s)"
| "jsNeg NaN = NaN"

definition jsSub :: "jsnum \<Rightarrow> jsnum \<Rightarrow> jsnum" where
  "jsSub a b = jsAdd a (jsNeg b)"

fun jsMul :: "jsnum \<Rightarrow> jsnum \<Rightarrow> jsnum" where
  "jsMul NaN _ = NaN"
| "jsMul _ NaN = NaN"
| "jsMul (Fin a) (Fin b) = Fin (fl (a * b))"
| "jsMul (Fin a) (Inf s) = (if a = 0 then NaN else Inf (s = (a > 0)))"
| "jsMul (Inf s) (Fin b) = (if b = 0 then NaN else Inf (s = (b > 0)))"
| "jsMul (Inf s) (Inf t) = Inf (s = t)"

fun jsDiv :: "jsnum \<Rightarrow> jsnum \<Rightarrow> jsnum" where
  "jsDiv NaN _ = NaN"
| "jsDiv _ NaN = NaN"
| "jsDiv (Fin a) (Fin b) =
     (if b \<noteq> 0 then Fin (fl (a / b)) else if a = 0 then NaN else Inf (a > 0))"
| "jsDiv (Fin a) (Inf s) = Fin 0"
| "jsDiv (Inf s) (Fin b) = Inf (s = (b \<ge> 0))"
| "jsDiv (Inf s) (Inf t) = NaN"

text \<open>\<open>Math.max(0, v)\<close> and the comparison \<open>v > c\<close>.\<close>

fun jsMax0 :: "jsnum \<Rightarrow> jsnum" where
  "jsMax0 (Fin v) = Fin (max 0 v)"
| "jsMax0 (Inf s) = (if s then Inf True else Fin 0)"
| "jsMax0 NaN = NaN"

fun jsGreater :: "jsnum \<Rightarrow> real \<Rightarrow> bool" where
  "jsGreater (Fin v) c = (v > c)"
| "jsGreater (Inf s) c = s"
| "jsGreater NaN c = False"

subsection \<open>poissonProbability and generateScoreDistribution\<close>

record scoreCell =
  sc_team1Score :: int
  sc_team2Score :: int
  probability :: jsnum

definition poissonProbability :: "nat \<Rightarrow> real \<Rightarrow> real" where
  "poissonProbability k lambda =
     (if lambda \<le> 0 then (if k = 0 then 1 else 0)
      else fold (\<lambda>i result. fl (result * fl (lambda / real i))) [1..<k + 1]
             (fl (exp (- lambda))))"

text \<open>
  The five correlation adjustments, each a conditional \<open>combinedProb *= factor\<close>, in the
  order of the source.
\<close>

definition scoreCorrelation :: "nat \<Rightarrow> nat \<Rightarrow> real \<Rightarrow> real" where
  "scoreCorrelation t1 t2 c = (if t1 = t2 then fl (c * 1.3) else c)"

definition defensiveCorrelation :: "real \<Rightarrow> nat \<Rightarrow> nat \<Rightarrow> real \<Rightarrow> real" where
  "defensiveCorrelation projectedTotal' t1 t2 c =
     (if t1 = 0 \<and> t2 = 0 \<and> projectedTotal' < 2.0 then fl (c * 1.7) else c)"

definition scoringCorrelation :: "nat \<Rightarrow> nat \<Rightarrow> real \<Rightarrow> real" where
  "scoringCorrelation t1 t2 c =
     (if (t1 \<ge> 3 \<and> t2 \<ge> 2) \<or> (t1 \<ge> 2 \<and> t2 \<ge> 3) then fl (c * 1.2) else c)"

definition highScoringAdjustment :: "nat \<Rightarrow> nat \<Rightarrow> real \<Rightarrow> real" where
  "highScoringAdjustment t1 t2 c = (if t1 + t2 > 6 then fl (c * 0.7) else c)"

definition commonScorelineAdjustment :: "nat \<Rightarrow> nat \<Rightarrow> real \<Rightarrow> real" where
  "commonScorelineAdjustment t1 t2 c =
     (if (t1 = 1 \<and> t2 = 0) \<or> (t1 = 0 \<and> t2 = 1) \<or> (t1 = 1 \<and> t2 = 1) \<or>
         (t1 = 2 \<and> t2 = 1) \<or> (t1 = 1 \<and> t2 = 2)
      then fl (c * 1.15) else c)"

definition combinedProb :: "real \<Rightarrow> real \<Rightarrow> real \<Rightarrow> nat \<Rightarrow> nat \<Rightarrow> real" where
  "combinedProb projectedTotal' team1Mean team2Mean t1 t2 =
     (let team1Prob = poissonProbability t1 team1Mean;
          team2Prob = poissonProbability t2 team2Mean
      in commonScorelineAdjustment t1 t2
           (highScoringAdjustment t1 t2
              (scoringCorrelation t1 t2
                 (defensiveCorrelation projectedTotal' t1 t2
                    (scoreCorrelation t1 t2 (fl (team1Prob * team2Prob)))))))"

text \<open>The 25 cells pushed by the two nested loops, in the order of the loops.\<close>

definition rawCells :: "real \<Rightarrow> real \<Rightarrow> scoreCell list" where
  "rawCells projectedTotal' projectedMargin' =
     (let team1Mean = (projectedTotal' / 2) + (projectedMargin' / 2);
          team2Mean = (projectedTotal' / 2) - (projectedMargin' / 2)
      in concat (map (\<lambda>t1. map (\<lambda>t2.
           \<lparr> sc_team1Score = int t1, sc_team2Score = int t2,
             probability =
               Fin (fl (combinedProb projectedTotal' team1Mean team2Mean t1 t2 * 100)) \<rparr>)
           [0..<5]) [0..<5]))"

text \<open>\<open>cells.reduce((sum, dist) => sum + dist.probability, 0)\<close>.\<close>

definition sumProbabilities :: "scoreCell list \<Rightarrow> jsnum" where
  "sumProbabilities cells = foldl (\<lambda>sum dist. jsAdd sum (probability dist)) (Fin 0) cells"

text \<open>The cells after the normalizing \<open>forEach\<close>; the division has no guard.\<close>

definition normalizedCells :: "real \<Rightarrow> real \<Rightarrow> scoreCell list" where
  "normalizedCells projectedTotal' projectedMargin' =
     (let cells = rawCells projectedTotal' projectedMargin';
          totalProb = sumProbabilities cells
      in map (\<lambda>dist. dist\<lparr> probability :=
                              jsMul (jsDiv (probability dist) totalProb) (Fin 100) \<rparr>) cells)"

definition otherProb :: "real \<Rightarrow> real \<Rightarrow> jsnum" where
  "otherProb projectedTotal' projectedMargin' =
     jsMax0 (jsSub (Fin 100)
               (sumProbabilities (normalizedCells projectedTotal' projectedMargin')))"

text \<open>
  \<open>sort((a, b) => b.probability - a.probability)\<close>: \<open>a\<close> stays in front of \<open>b\<close> when the
  comparator's value is negative, zero or \<open>NaN\<close> (which \<open>sort\<close> reads as zero).  The
  sort is stable; it is the insertion sort below whenever the comparator is consistent,
  as it is when all probabilities are finite or all are \<open>NaN\<close>.
\<close>

definition staysInFront :: "scoreCell \<Rightarrow> scoreCell \<Rightarrow> bool" where
  "staysInFront a b =
     (case jsSub (probability b) (probability a) of
        Fin d \<Rightarrow> d \<le> 0 | Inf s \<Rightarrow> \<not> s | NaN \<Rightarrow> True)"

fun insertCell :: "scoreCell \<Rightarrow> scoreCell list \<Rightarrow> scoreCell list" where
  "insertCell x [] = [x]"
| "insertCell x (y # ys) = (if staysInFront x y then x # y # ys else y # insertCell x ys)"

definition sortCells :: "scoreCell list \<Rightarrow> scoreCell list" where
  "sortCells cells = foldr insertCell cells []"

definition generateScoreDistribution :: "real \<Rightarrow> real \<Rightarrow> scoreCell list" where
  "generateScoreDistribution projectedTotal' projectedMargin' =
     (let cells = normalizedCells projectedTotal' projectedMargin';
          other = otherProb projectedTotal' projectedMargin';
          withOther =
            (if jsGreater other 0.1
             then cells @ [\<lparr> sc_team1Score = - 1, sc_team2Score = - 1, probability = other \<rparr>]
             else cells)
      in sortCells withOther)"

section \<open>Specification-side definitions and sample inputs\<close>

text \<open>
  The draw probability as the specification words it: a base rate, two optional bonuses,
  and a clamp.
\<close>

definition spec_drawProb :: "features_t \<Rightarrow> real" where
  "spec_drawProb f =
     (let base = 35 - 4 * (team1AvgScore (basicStats f) + team2AvgScore (basicStats f))
                    - 15 * \<bar>attackDifference f\<bar>;
          bonusDefense = (if team1DefenseStrength (advancedStats f) < 0.8 \<and>
                             team2DefenseStrength (advancedStats f) < 0.8 then 10 else 0);
          bonusImportance = (if bs_matchImportance (basicStats f) > 1.3
                             then 8 * (bs_matchImportance (basicStats f) - 1.3) else 0)
      in max 5 (min 45 (base + bonusDefense + bonusImportance)))"

definition probSum :: "probabilities_t \<Rightarrow> real" where
  "probSum p = team1WinProb p + team2WinProb p + drawProb p"

text \<open>
  A feature snapshot of a one-sided fixture with sufficient data: team 1 won every
  head-to-head meeting and is in much better form.
\<close>

definition lopsidedFeatures :: features_t where
  "lopsidedFeatures =
     \<lparr> basicStats = \<lparr> team1AvgScore = 2, team2AvgScore = 1, team1AvgConceded = 1,
                      team2AvgConceded = 2, h2hAdvantage = 1, locationFactor = 0,
                      rankingDiff = 0, bs_matchImportance = 1, bs_totalLine = 0,
                      bs_pointSpread = 0, bs_spreadDirection = 1 \<rparr>,
       advancedStats = \<lparr> team1RecentForm = 0.9, team2RecentForm = 0.1,
                         team1DefenseStrength = 1, team2DefenseStrength = 1,
                         team1AttackStrength = 1, team2AttackStrength = 1,
                         team1Consistency = 0.5, team2Consistency = 0.5,
                         team1MomentumIndex = 0, team2MomentumIndex = 0,
                         team1HomeAdvantage = 1, team2HomeAdvantage = 1,
                         team1MatchImportancePerformance = 1,
                         team2MatchImportancePerformance = 1 \<rparr>,
       trends = \<lparr> scoring = \<lparr> team1Trend = 0, team2Trend = 0, overallTrend = 0 \<rparr>,
                  cleanSheets = \<lparr> team1CleanSheetPct = 0, team2CleanSheetPct = 0,
                                  team1CleanSheets = 0, team2CleanSheets = 0,
                                  cs_team1Matches = 10, cs_team2Matches = 10 \<rparr> \<rparr>,
       dataQuality = \<lparr> totalMatches = 15, team1Matches = 5, team2Matches = 5, h2hMatches = 5,
                       dataSufficiency = True, dataExcellence = True \<rparr> \<rparr>"

text \<open>The same fixture with too few matches for a good analysis.\<close>

definition sparseFeatures :: features_t where
  "sparseFeatures =
     lopsidedFeatures\<lparr> dataQuality :=
       \<lparr> totalMatches = 3, team1Matches = 1, team2Matches = 1, h2hMatches = 1,
         dataSufficiency = False, dataExcellence = False \<rparr> \<rparr>"

text \<open>
  The slot a raw score pair \<open>(score1, score2)\<close> ends up in: the team-2 handler passes the
  team's own score first, and \<open>processMatchScore\<close> stores it in \<open>team2Score\<close>.
\<close>

definition slot1 :: "category \<Rightarrow> int \<Rightarrow> int \<Rightarrow> int" where
  "slot1 cat score1 score2 = (if cat = Cat_team2 then score2 else score1)"

definition slot2 :: "category \<Rightarrow> int \<Rightarrow> int \<Rightarrow> int" where
  "slot2 cat score1 score2 = (if cat = Cat_team2 then score1 else score2)"

text \<open>The score fields of a stored record, and what they should be for input pair \<open>i\<close>.\<close>

definition scoreLine :: "match \<Rightarrow> int \<times> int \<times> int \<times> int" where
  "scoreLine m = (matchNumber m, team1Score m, team2Score m, totalScore m)"

definition expectedLine :: "category \<Rightarrow> scores \<Rightarrow> scores \<Rightarrow> nat \<Rightarrow> int \<times> int \<times> int \<times> int" where
  "expectedLine cat scores1 scores2 i =
     (int i + 1,
      slot1 cat (the (scores1 ! i)) (the (scores2 ! i)),
      slot2 cat (the (scores1 ! i)) (the (scores2 ! i)),
      the (scores1 ! i) + the (scores2 ! i))"

text \<open>Two states agree on the match-record store and on the configuration.\<close>

definition sameInputs :: "globals \<Rightarrow> globals \<Rightarrow> bool" where
  "sameInputs s' s =
     (matchData s' = matchData s \<and> team1Name s' = team1Name s \<and> team2Name s' = team2Name s \<and>
      team1Ranking s' = team1Ranking s \<and> team2Ranking s' = team2Ranking s \<and>
      matchImportance s' = matchImportance s \<and> matchLocation s' = matchLocation s \<and>
      totalLine s' = totalLine s \<and> pointSpread s' = pointSpread s \<and>
      spreadDirection s' = spreadDirection s)"

text \<open>Sample states: rankings 4 and 2 with no scores entered, and a store with two matches.\<close>

definition rankedNoScores :: globals where
  "rankedNoScores =
     handleTeamSetup
       \<lparr> tf_team1 = ''Liverpool'', tf_team2 = ''Manchester City'',
         tf_team1_ranking = Some 4, tf_team2_ranking = Some 2,
         tf_match_importance = Some 1, tf_match_location = ''neutral'' \<rparr>
       initialGlobals"

definition sampleClock :: "nat \<Rightarrow> int" where
  "sampleClock i = 1700000000000 + int i"

definition sampleStore :: globals where
  "sampleStore = handleH2HAdd sampleClock [Some 1, Some 2, Some 3] [Some 0, Some 1] initialGlobals"

definition sampleLines :: bettingForm where
  "sampleLines = \<lparr> bf_betting_line = Some 2.5, bf_point_spread = Some 1,
                    bf_spread_direction = ''team1'' \<rparr>"

text \<open>
  A one-sided store: four head-to-head matches entered as team-1 scores \<open>3,3,3,3\<close> and
  team-2 scores \<open>0,0,0,0\<close>, nothing else, default configuration.  \<open>oneSidedMatch i\<close> is the
  record the handler stores for pair \<open>i\<close>.
\<close>

definition oneSidedStore :: globals where
  "oneSidedStore =
     handleH2HAdd sampleClock [Some 3, Some 3, Some 3, Some 3] [Some 0, Some 0, Some 0, Some 0]
       initialGlobals"

definition oneSidedMatch :: "nat \<Rightarrow> match" where
  "oneSidedMatch i =
     \<lparr> matchNumber = int i + 1, team1Score = 3, team2Score = 0, totalScore = 3,
       outcome = ''Team 1 Wins'', category = Cat_h2h, totalOverLine = None, spreadCover = None,
       marginOfVictory = 3, goalEfficiency = 1, cleanSheet = True,
       timestamp = sampleClock i - (4 - int i) * weekMs \<rparr>"

text \<open>
  A high-scoring store: four head-to-head matches entered as team-1 scores
  \<open>400,400,400,400\<close> and team-2 scores \<open>400,400,400,400\<close>, nothing else, default
  configuration.  \<open>drawnMatch i\<close> is the record the handler stores for pair \<open>i\<close>.
\<close>

definition drawnStore :: globals where
  "drawnStore =
     handleH2HAdd sampleClock [Some 400, Some 400, Some 400, Some 400]
       [Some 400, Some 400, Some 400, Some 400] initialGlobals"

definition drawnMatch :: "nat \<Rightarrow> match" where
  "drawnMatch i =
     \<lparr> matchNumber = int i + 1, team1Score = 400, team2Score = 400, totalScore = 800,
       outcome = ''Draw'', category = Cat_h2h, totalOverLine = None, spreadCover = None,
       marginOfVictory = 0, goalEfficiency = 1 / 2, cleanSheet = False,
       timestamp = sampleClock i - (4 - int i) * weekMs \<rparr>"

section \<open>Win probabilities: stages, draw rate and the floor\<close>

lemma renorm_sum:
  fixes a b c :: real
  assumes "a + b + c \<noteq> 0"
  shows "a / (a + b + c) * 100 + b / (a + b + c) * 100 + c / (a + b + c) * 100 = 100"
proof -
  have "a / (a + b + c) * 100 + b / (a + b + c) * 100 + c / (a + b + c) * 100 =
        (a + b + c) / (a + b + c) * 100"
    by (simp only: add_divide_distrib distrib_right)
  then show ?thesis using assms by simp
qed

lemma renorm_100:
  fixes t1 B d x :: real
  shows "x / (t1 + (B - t1) + (100 - B)) * 100 = x"
  by simp

lemma normalizedProbs_simps:
  "team1WinProb (normalizedProbs f) = (100 - clampedDrawProb f) / (1 + exp (- normalizedAdvantage f))"
  "team2WinProb (normalizedProbs f) =
     (100 - clampedDrawProb f) - (100 - clampedDrawProb f) / (1 + exp (- normalizedAdvantage f))"
  "drawProb (normalizedProbs f) = clampedDrawProb f"
proof -
  define B where "B = 100 - clampedDrawProb f"
  define t1 where "t1 = B / (1 + exp (- normalizedAdvantage f))"
  have d: "clampedDrawProb f = 100 - B" by (simp add: B_def)
  have n: "normalizedProbs f =
      \<lparr> team1WinProb = t1 / (t1 + (B - t1) + (100 - B)) * 100,
        team2WinProb = (B - t1) / (t1 + (B - t1) + (100 - B)) * 100,
        drawProb = (100 - B) / (t1 + (B - t1) + (100 - B)) * 100 \<rparr>"
    unfolding normalizedProbs_def Let_def t1_def B_def by simp
  show "team1WinProb (normalizedProbs f) = (100 - clampedDrawProb f) / (1 + exp (- normalizedAdvantage f))"
    unfolding n by (simp only: renorm_100 probabilities_t.simps t1_def B_def)
  show "team2WinProb (normalizedProbs f) =
     (100 - clampedDrawProb f) - (100 - clampedDrawProb f) / (1 + exp (- normalizedAdvantage f))"
    unfolding n by (simp only: renorm_100 probabilities_t.simps t1_def B_def)
  show "drawProb (normalizedProbs f) = clampedDrawProb f"
    unfolding n by (simp only: renorm_100 probabilities_t.simps d)
qed

lemma probSum_normalized: "probSum (normalizedProbs f) = 100"
  by (simp add: probSum_def normalizedProbs_simps)

lemma blendedProbs_insufficient:
  assumes "\<not> dataSufficiency (dataQuality f)"
  shows "team1WinProb (blendedProbs f) = 0.7 * team1WinProb (normalizedProbs f) + 0.3 * 40"
    and "team2WinProb (blendedProbs f) = 0.7 * team2WinProb (normalizedProbs f) + 0.3 * 40"
    and "drawProb (blendedProbs f) = 0.7 * drawProb (normalizedProbs f) + 0.3 * 20"
  using assms by (simp_all add: blendedProbs_def Let_def)

lemma blendedProbs_sufficient:
  "dataSufficiency (dataQuality f) \<Longrightarrow> blendedProbs f = normalizedProbs f"
  by (simp add: blendedProbs_def Let_def)

lemma probSum_blended: "probSum (blendedProbs f) = 100"
proof (cases "dataSufficiency (dataQuality f)")
  case True
  then show ?thesis by (simp add: blendedProbs_sufficient probSum_normalized)
next
  case False
  have "probSum (blendedProbs f) = probSum (normalizedProbs f) * 0.7 + 30"
    using blendedProbs_insufficient[OF False] by (simp add: probSum_def)
  then show ?thesis by (simp add: probSum_normalized)
qed

lemma floored_ge:
  "5 \<le> team1WinProb (flooredProbs f)"
  "5 \<le> team2WinProb (flooredProbs f)"
  "5 \<le> drawProb (flooredProbs f)"
  by (simp_all add: flooredProbs_def Let_def)

lemma probSum_floored_pos: "15 \<le> probSum (flooredProbs f)"
  using floored_ge[of f] by (simp add: probSum_def)

lemma probSum_final: "probSum (calculateModelV1WinProbabilities f) = 100"
proof -
  let ?p = "flooredProbs f"
  have nz: "probSum ?p \<noteq> 0" using probSum_floored_pos[of f] by simp
  show ?thesis
    unfolding calculateModelV1WinProbabilities_def Let_def probSum_def probabilities_t.simps
    using nz unfolding probSum_def by (rule renorm_sum)
qed

lemma clampedDrawProb_spec: "clampedDrawProb f = spec_drawProb f"
  by (simp add: clampedDrawProb_def baseDrawRate_def spec_drawProb_def Let_def algebra_simps)

lemma clampedDrawProb_bounds: "5 \<le> clampedDrawProb f \<and> clampedDrawProb f \<le> 45"
  by (simp add: clampedDrawProb_def)

lemma exp3_lower: "(14.4::real) < exp 3"
proof -
  have h: "(2.5::real) \<le> exp 1"
    using exp_lower_Taylor_quadratic[of "1::real"] by simp
  have "exp (3::real) = exp 1 ^ 3"
    using exp_of_nat_mult[of 3 "1::real"] by simp
  moreover have "(2.5::real) ^ 3 \<le> exp 1 ^ 3"
    using h by (intro power_mono) simp_all
  ultimately show ?thesis by (simp add: power3_eq_cube)
qed

lemma lopsided_suff: "dataSufficiency (dataQuality lopsidedFeatures)"
  by (simp add: lopsidedFeatures_def)

lemma sparse_insuff: "\<not> dataSufficiency (dataQuality sparseFeatures)"
  by (simp add: sparseFeatures_def)

lemma renormalized_below_floor:
  assumes adv: "normalizedAdvantage f = 3"
    and draw: "clampedDrawProb f = 23"
    and suff: "dataSufficiency (dataQuality f)"
  shows "team2WinProb (flooredProbs f) = 5 \<and>
         team2WinProb (calculateModelV1WinProbabilities f) < 5"
proof -
  define e where "e = exp (- (3::real))"
  have e_pos: "0 < e" by (simp add: e_def)
  have e_small: "e < 5 / 72"
    unfolding e_def using exp3_lower by (simp add: exp_minus field_simps)
  define t1 where "t1 = 77 / (1 + e)"
  have t1_big: "72 < t1"
    unfolding t1_def using e_small e_pos by (simp add: field_simps)
  have n1: "team1WinProb (normalizedProbs f) = t1"
    by (simp add: normalizedProbs_simps adv draw t1_def e_def)
  have n2: "team2WinProb (normalizedProbs f) = 77 - t1"
    by (simp add: normalizedProbs_simps adv draw t1_def e_def)
  have n3: "drawProb (normalizedProbs f) = 23"
    by (simp add: normalizedProbs_simps draw)
  have b: "blendedProbs f = normalizedProbs f"
    using suff by (rule blendedProbs_sufficient)
  have f1: "team1WinProb (flooredProbs f) = t1"
    using t1_big by (simp add: flooredProbs_def Let_def b n1)
  have f2: "team2WinProb (flooredProbs f) = 5"
    using t1_big by (simp add: flooredProbs_def Let_def b n2)
  have f3: "drawProb (flooredProbs f) = 23"
    by (simp add: flooredProbs_def Let_def b n3)
  have "team2WinProb (calculateModelV1WinProbabilities f) = 5 / (t1 + 28) * 100"
    by (simp add: calculateModelV1WinProbabilities_def Let_def f1 f2 f3)
  also have "\<dots> < 5"
    using t1_big by (simp add: field_simps)
  finally show ?thesis using f2 by simp
qed

text \<open>The feature values of the one-sided store that the win probabilities read.\<close>

lemma upt4: "[0..<4] = [0, 1, 2, 3]"
  by (simp add: upt_rec)

lemma oneSidedStore_eq:
  "oneSidedStore = initialGlobals\<lparr> matchData :=
      \<lparr> h2h = [oneSidedMatch 0, oneSidedMatch 1, oneSidedMatch 2, oneSidedMatch 3],
        team1 = [], team2 = [] \<rparr> \<rparr>"
  by (simp add: oneSidedStore_def handleH2HAdd_def addScores_def validateScores_def isNaN_def
      Let_def upt4 processMatchScore_def newMatch_def getCategory_def setCategory_def
      initialGlobals_def oneSidedMatch_def sampleClock_def weekMs_def)


lemma oneSided_fields:
  "h2h (matchData oneSidedStore) = [oneSidedMatch 0, oneSidedMatch 1, oneSidedMatch 2, oneSidedMatch 3]"
  "team1 (matchData oneSidedStore) = []"
  "team2 (matchData oneSidedStore) = []"
  "team1Name oneSidedStore = ''Team 1''"
  "team2Name oneSidedStore = ''Team 2''"
  "matchLocation oneSidedStore = ''neutral''"
  "matchImportance oneSidedStore = 1"
  "team1Ranking oneSidedStore = 0"
  "team2Ranking oneSidedStore = 0"
  by (simp_all add: oneSidedStore_eq initialGlobals_def)

lemma oneSidedMatch_fields:
  "team1Score (oneSidedMatch i) = 3" "team2Score (oneSidedMatch i) = 0"
  "outcome (oneSidedMatch i) = ''Team 1 Wins''"
  "timestamp (oneSidedMatch i) = 1700000000000 + int i - (4 - int i) * 604800000"
  by (simp_all add: oneSidedMatch_def sampleClock_def weekMs_def)

lemma oneSided_sorted_desc:
  "sort_key (\<lambda>m. - timestamp m) [oneSidedMatch 0, oneSidedMatch 1, oneSidedMatch 2, oneSidedMatch 3] =
     [oneSidedMatch 3, oneSidedMatch 2, oneSidedMatch 1, oneSidedMatch 0]"
  by (simp add: oneSidedMatch_fields)

lemma oneSided_averages:
  "calculateOverallTeamAverage oneSidedStore n True = 3"
  "calculateOverallTeamAverage oneSidedStore n False = 0"
  "calculateTeamAverageConceded oneSidedStore n True = 0"
  "calculateTeamAverageConceded oneSidedStore n False = 3"
  by (simp_all add: calculateOverallTeamAverage_def calculateTeamAverageConceded_def Let_def
      oneSided_fields oneSidedMatch_fields getCategory_def)

lemma oneSided_strengths:
  "calculateAttackStrength oneSidedStore n True = 2.5"
  "calculateAttackStrength oneSidedStore n False = 0"
  "calculateDefenseStrength oneSidedStore n True = 0"
  "calculateDefenseStrength oneSidedStore n False = 2.5"
  by (simp_all add: calculateAttackStrength_def calculateDefenseStrength_def Let_def
      oneSided_averages oneSided_fields)

lemma oneSided_h2h: "calculateH2HAdvantage oneSidedStore = 1"
proof -
  define W where "W = exp (- 0.2 * real 0) + (exp (- 0.2 * real (Suc 0)) +
      (exp (- 0.2 * real (Suc (Suc 0))) + (exp (- 0.2 * real (Suc (Suc (Suc 0)))) + (0::real))))"
  have W: "0 < W" unfolding W_def by (intro add_pos_nonneg exp_gt_zero) simp
  have "calculateH2HAdvantage oneSidedStore = (4 / 4) * 0.3 + (W / W) * 0.7"
    unfolding calculateH2HAdvantage_def Let_def oneSided_fields oneSided_sorted_desc
    using W by (simp add: oneSidedMatch_fields W_def)
  then show ?thesis using W by simp
qed


lemma oneSided_form:
  "calculateRecentForm oneSidedStore n True = 0.9625"
  "calculateRecentForm oneSidedStore n False = 0"
  by (simp_all add: calculateRecentForm_def Let_def oneSided_fields oneSidedMatch_fields
      formMatchScore_def)

lemma oneSided_sorted_asc:
  "sort_key mr_timestamp
     (map (\<lambda>m. \<lparr> mr_timestamp = timestamp m, mr_score = f m,
                  mr_opponentScore = g m, mr_outcome = outcome m \<rparr>)
        [oneSidedMatch 0, oneSidedMatch 1, oneSidedMatch 2, oneSidedMatch 3]) =
   map (\<lambda>m. \<lparr> mr_timestamp = timestamp m, mr_score = f m,
                mr_opponentScore = g m, mr_outcome = outcome m \<rparr>)
        [oneSidedMatch 0, oneSidedMatch 1, oneSidedMatch 2, oneSidedMatch 3]"
  by (simp add: oneSidedMatch_fields)

lemma oneSided_momentum:
  "calculateMomentumIndex oneSidedStore n True = 0"
  "calculateMomentumIndex oneSidedStore n False = 0"
  unfolding calculateMomentumIndex_def Let_def oneSided_fields
  by (simp_all add: oneSided_sorted_asc oneSidedMatch_fields)

lemma oneSided_advantage: "normalizedAdvantage (prepareMatchFeatures oneSidedStore) = 3"
  by (simp add: normalizedAdvantage_def advantageCoefficient_def attackDifference_def Let_def
      prepareMatchFeatures_def oneSided_fields oneSided_strengths oneSided_form oneSided_h2h
      oneSided_momentum W_RECENT_FORM_def W_H2H_MATCHES_def W_OVERALL_PERFORMANCE_def
      W_MOMENTUM_def)

lemma oneSided_draw: "clampedDrawProb (prepareMatchFeatures oneSidedStore) = 23"
  by (simp add: clampedDrawProb_def baseDrawRate_def attackDifference_def Let_def
      prepareMatchFeatures_def oneSided_fields oneSided_strengths oneSided_averages)

lemma oneSided_sufficient: "dataSufficiency (dataQuality (prepareMatchFeatures oneSidedStore))"
  by (simp add: prepareMatchFeatures_def getTotalMatchCount_def oneSided_fields
      MIN_MATCHES_FOR_GOOD_ANALYSIS_def)

text \<open>
  C1.  The claim: for every feature snapshot, each of the three returned probabilities is
  at least 5 after the final floor and renormalization.  The floor is applied before the
  last division by \<open>finalTotal\<close>; when a value was raised to 5 the total exceeds 100 and the
  division brings it below 5 again.  For the feature snapshot of the one-sided store the
  floored \<open>team2WinProb\<close> is 5 and the returned \<open>team2WinProb\<close> is below 5.
\<close>

theorem calculateModelV1WinProbabilities_below_floor:
  "team2WinProb (flooredProbs (prepareMatchFeatures oneSidedStore)) = 5 \<and>
   team2WinProb (calculateModelV1WinProbabilities (prepareMatchFeatures oneSidedStore)) < 5"
  using oneSided_advantage oneSided_draw oneSided_sufficient
  by (rule renormalized_below_floor)

text \<open>
  C3.  After the first normalization, after the data-quality blend and after the final
  floor-and-renormalize step the three probabilities sum to 100.  With insufficient data
  the blend is 70% of the normalized value plus 30% of the neutral prior (40, 40, 20);
  with sufficient data it leaves the normalized values as they are.
\<close>

theorem win_probabilities_sum_100:
  "probSum (normalizedProbs f) = 100 \<and>
   probSum (blendedProbs f) = 100 \<and>
   probSum (calculateModelV1WinProbabilities f) = 100 \<and>
   (\<not> dataSufficiency (dataQuality f) \<longrightarrow>
      team1WinProb (blendedProbs f) = 0.7 * team1WinProb (normalizedProbs f) + 0.3 * 40 \<and>
      team2WinProb (blendedProbs f) = 0.7 * team2WinProb (normalizedProbs f) + 0.3 * 40 \<and>
      drawProb (blendedProbs f) = 0.7 * drawProb (normalizedProbs f) + 0.3 * 20) \<and>
   (dataSufficiency (dataQuality f) \<longrightarrow> blendedProbs f = normalizedProbs f)"
  using probSum_normalized[of f] probSum_blended[of f] probSum_final[of f]
    blendedProbs_insufficient[of f] blendedProbs_sufficient[of f]
  by blast

theorem win_probabilities_sum_100_witness:
  "probSum (blendedProbs sparseFeatures) = 100 \<and>
   drawProb (blendedProbs sparseFeatures) = 0.7 * 23 + 0.3 * 20 \<and>
   probSum (calculateModelV1WinProbabilities sparseFeatures) = 100 \<and>
   blendedProbs lopsidedFeatures = normalizedProbs lopsidedFeatures"
proof -
  have d: "drawProb (normalizedProbs sparseFeatures) = 23"
    by (simp add: normalizedProbs_simps clampedDrawProb_def baseDrawRate_def attackDifference_def
        sparseFeatures_def lopsidedFeatures_def Let_def)
  show ?thesis
    using win_probabilities_sum_100[of sparseFeatures] win_probabilities_sum_100[of lopsidedFeatures]
      sparse_insuff lopsided_suff d
    by simp
qed

text \<open>
  C7.  The draw probability is fixed before the win split: it is the base rate
  \<open>35 - 4 * (team1AvgScore + team2AvgScore) - 15 * |attackDifference|\<close>, plus 10 when both
  defense strengths are below 0.8, plus \<open>8 * (matchImportance - 1.3)\<close> when the match
  importance exceeds 1.3, clamped to [5, 45].  The win split then shares out the remaining
  \<open>100 - drawProb\<close>, and the first normalization leaves all three values unchanged.
\<close>

theorem draw_probability_formula:
  "clampedDrawProb f = spec_drawProb f \<and>
   5 \<le> clampedDrawProb f \<and> clampedDrawProb f \<le> 45 \<and>
   drawProb (normalizedProbs f) = clampedDrawProb f \<and>
   team1WinProb (normalizedProbs f) + team2WinProb (normalizedProbs f) = 100 - clampedDrawProb f"
  using clampedDrawProb_spec[of f] clampedDrawProb_bounds[of f]
  by (simp add: normalizedProbs_simps)

section \<open>Consistency reconciliation\<close>

text \<open>
  C10.  The reconciliation step returns the probabilities it was given; only the margin
  component of the result can differ from the input.
\<close>

theorem ensurePredictionConsistency_keeps_probabilities:
  "fst (ensurePredictionConsistency p m) = p \<and>
   team1WinProb (fst (ensurePredictionConsistency p m)) = team1WinProb p \<and>
   team2WinProb (fst (ensurePredictionConsistency p m)) = team2WinProb p \<and>
   drawProb (fst (ensurePredictionConsistency p m)) = drawProb p"
  by (simp add: ensurePredictionConsistency_def Let_def split: winner.splits)

text \<open>
  C2.  Draw is the probability-implied outcome exactly when \<open>drawProb\<close> is strictly the
  largest of the three; then the returned margin is 0.2 times the original, so its
  magnitude is at most \<open>0.2 * |m|\<close>.  Otherwise the probability-implied winner is team 1 if
  \<open>team1WinProb\<close> is at least \<open>team2WinProb\<close>, else team 2; when the margin-implied
  winner (team 1 above 0.25, team 2 below -0.25, otherwise draw) differs from it, the returned
  margin has magnitude \<open>max 0.25 (0.8 * |m|)\<close> and the sign of the probability-implied winner.
\<close>

theorem ensurePredictionConsistency_margin:
  "(team1WinProb p < drawProb p \<and> team2WinProb p < drawProb p \<longrightarrow>
      predictedWinner p = W_draw \<and>
      snd (ensurePredictionConsistency p m) = 0.2 * m \<and>
      \<bar>snd (ensurePredictionConsistency p m)\<bar> \<le> 0.2 * \<bar>m\<bar>) \<and>
   (\<not> (team1WinProb p < drawProb p \<and> team2WinProb p < drawProb p) \<longrightarrow>
      predictedWinner p = (if team2WinProb p \<le> team1WinProb p then W_team1 else W_team2) \<and>
      marginPredictedWinner m =
        (if m > 0.25 then W_team1 else if m < - 0.25 then W_team2 else W_draw) \<and>
      (predictedWinner p \<noteq> marginPredictedWinner m \<longrightarrow>
         snd (ensurePredictionConsistency p m) =
           (if predictedWinner p = W_team1 then 1 else - 1) * max 0.25 (0.8 * \<bar>m\<bar>)))"
  by (auto simp: ensurePredictionConsistency_def Let_def predictedWinner_def
      marginPredictedWinner_def marginThreshold_def max_def min_def split: winner.splits)

theorem ensurePredictionConsistency_margin_witness:
  "snd (ensurePredictionConsistency \<lparr> team1WinProb = 30, team2WinProb = 30, drawProb = 40 \<rparr> 1) = 0.2 \<and>
   snd (ensurePredictionConsistency \<lparr> team1WinProb = 50, team2WinProb = 30, drawProb = 20 \<rparr> (- 1)) = 0.8 \<and>
   snd (ensurePredictionConsistency \<lparr> team1WinProb = 30, team2WinProb = 50, drawProb = 20 \<rparr> 0.1) = - 0.25"
  using ensurePredictionConsistency_margin
          [of "\<lparr> team1WinProb = 30, team2WinProb = 30, drawProb = 40 \<rparr>" 1]
        ensurePredictionConsistency_margin
          [of "\<lparr> team1WinProb = 50, team2WinProb = 30, drawProb = 20 \<rparr>" "- 1"]
        ensurePredictionConsistency_margin
          [of "\<lparr> team1WinProb = 30, team2WinProb = 50, drawProb = 20 \<rparr>" "0.1"]
  by (simp add: predictedWinner_def marginPredictedWinner_def marginThreshold_def)

section \<open>Properties of ingestion\<close>

lemma getCategory_setCategory:
  "getCategory c (setCategory c' ms d) = (if c = c' then ms else getCategory c d)"
  by (cases c; cases c') (simp_all add: getCategory_def setCategory_def)

lemma scoreLine_newMatch:
  "scoreLine (newMatch s now cat k x y ts) = (k, slot1 cat x y, slot2 cat x y, x + y)"
  by (cases cat) (simp_all add: scoreLine_def newMatch_def Let_def slot1_def slot2_def)

lemma getCategory_processMatchScore:
  "getCategory c (matchData (processMatchScore now cat k x y ts s)) =
     (if c = cat
      then sort_key timestamp (getCategory cat (matchData s) @ [newMatch s now cat k x y ts])
      else getCategory c (matchData s))"
  by (simp add: processMatchScore_def getCategory_setCategory)

lemma lines_processMatchScore:
  "image_mset scoreLine (mset (getCategory cat (matchData (processMatchScore now cat k x y ts s)))) =
   add_mset (k, slot1 cat x y, slot2 cat x y, x + y)
     (image_mset scoreLine (mset (getCategory cat (matchData s))))"
  by (simp add: getCategory_processMatchScore scoreLine_newMatch)

lemma lines_fold:
  "image_mset scoreLine (mset (getCategory cat (matchData
      (fold (\<lambda>i st. processMatchScore (now i) cat (int i + 1) (a i) (b i) (ts i) st) is s)))) =
   image_mset scoreLine (mset (getCategory cat (matchData s))) +
   image_mset (\<lambda>i. (int i + 1, slot1 cat (a i) (b i), slot2 cat (a i) (b i), a i + b i)) (mset is)"
proof (induction "is" arbitrary: s)
  case Nil
  then show ?case by simp
next
  case (Cons i "is")
  show ?case
    by (simp add: Cons.IH lines_processMatchScore)
qed

lemma others_fold:
  "c \<noteq> cat \<Longrightarrow>
   getCategory c (matchData
      (fold (\<lambda>i st. processMatchScore (now i) cat (int i + 1) (a i) (b i) (ts i) st) is s)) =
   getCategory c (matchData s)"
  by (induction "is" arbitrary: s) (simp_all add: getCategory_processMatchScore)

lemma addScores_unfold:
  assumes "validateScores scores1 scores2"
  shows "addScores cat clock scores1 scores2 s =
        fold (\<lambda>i st. processMatchScore (clock i) cat (int i + 1)
                (the (scores1 ! i)) (the (scores2 ! i))
                (clock i - (int (min (length scores1) (length scores2)) - int i) * weekMs) st)
             [0..<min (length scores1) (length scores2)]
             (s\<lparr> matchData := setCategory cat [] (matchData s) \<rparr>)"
  using assms by (simp add: addScores_def Let_def)

lemma addScores_lines:
  assumes "validateScores scores1 scores2"
  shows "mset (map scoreLine (getCategory cat (matchData (addScores cat clock scores1 scores2 s)))) =
         mset (map (expectedLine cat scores1 scores2) [0..<min (length scores1) (length scores2)])"
proof -
  have "image_mset scoreLine (mset (getCategory cat (matchData (addScores cat clock scores1 scores2 s)))) =
        image_mset (\<lambda>i. (int i + 1, slot1 cat (the (scores1 ! i)) (the (scores2 ! i)),
                            slot2 cat (the (scores1 ! i)) (the (scores2 ! i)),
                            the (scores1 ! i) + the (scores2 ! i)))
          (mset [0..<min (length scores1) (length scores2)])"
    unfolding addScores_unfold[OF assms] lines_fold
    by (simp add: getCategory_setCategory)
  also have "\<dots> = image_mset (expectedLine cat scores1 scores2) (mset [0..<min (length scores1) (length scores2)])"
    by (simp add: expectedLine_def[abs_def])
  finally show ?thesis by (simp only: mset_map)
qed

lemma addScores_others:
  assumes "c \<noteq> cat"
  shows "getCategory c (matchData (addScores cat clock scores1 scores2 s)) = getCategory c (matchData s)"
proof (cases "validateScores scores1 scores2")
  case False
  then show ?thesis by (simp add: addScores_def)
next
  case True
  show ?thesis
    unfolding addScores_unfold[OF True]
    using assms by (simp add: others_fold getCategory_setCategory)
qed

lemma addScores_length:
  assumes "validateScores scores1 scores2"
  shows "length (getCategory cat (matchData (addScores cat clock scores1 scores2 s))) =
         min (length scores1) (length scores2)"
proof -
  have "size (mset (map scoreLine (getCategory cat (matchData (addScores cat clock scores1 scores2 s))))) =
        size (mset (map (expectedLine cat scores1 scores2) [0..<min (length scores1) (length scores2)]))"
    by (simp only: addScores_lines[OF assms])
  then show ?thesis by simp
qed

lemma addScores_member:
  assumes "validateScores scores1 scores2"
    and "m \<in> set (getCategory cat (matchData (addScores cat clock scores1 scores2 s)))"
  shows "\<exists>i < min (length scores1) (length scores2). scoreLine m = expectedLine cat scores1 scores2 i"
proof -
  have "scoreLine m \<in> set (map scoreLine (getCategory cat (matchData (addScores cat clock scores1 scores2 s))))"
    using assms(2) by simp
  then have "scoreLine m \<in># mset (map scoreLine (getCategory cat (matchData (addScores cat clock scores1 scores2 s))))"
    by (simp only: set_mset_mset)
  then have "scoreLine m \<in># mset (map (expectedLine cat scores1 scores2) [0..<min (length scores1) (length scores2)])"
    by (simp only: addScores_lines[OF assms(1)])
  then show ?thesis by auto
qed

lemma addHandler_addScores: "addHandler cat clock scores1 scores2 s = addScores cat clock scores1 scores2 s"
  by (cases cat) (simp_all add: addHandler_def handleH2HAdd_def handleTeam1Add_def handleTeam2Add_def)

text \<open>
  C6.  For valid score arrays (all entries numeric and non-negative, both arrays
  non-empty) each of the three add handlers stores exactly
  \<open>min (length scores1) (length scores2)\<close> records for its category: one record per index
  below that minimum, carrying the pair at that index, whatever the category held before.
  The other two categories are untouched, and every stored record's \<open>totalScore\<close> is the
  sum of its two scores.
\<close>

theorem ingestion_truncates_and_sums:
  assumes "validateScores scores1 scores2"
  shows "length (getCategory cat (matchData (addHandler cat clock scores1 scores2 s))) =
           min (length scores1) (length scores2) \<and>
         mset (map scoreLine (getCategory cat (matchData (addHandler cat clock scores1 scores2 s)))) =
           mset (map (expectedLine cat scores1 scores2) [0..<min (length scores1) (length scores2)]) \<and>
         (\<forall>m \<in> set (getCategory cat (matchData (addHandler cat clock scores1 scores2 s))).
            totalScore m = team1Score m + team2Score m) \<and>
         (\<forall>c. c \<noteq> cat \<longrightarrow>
            getCategory c (matchData (addHandler cat clock scores1 scores2 s)) =
            getCategory c (matchData s))"
proof -
  have tot: "totalScore m = team1Score m + team2Score m"
    if mem: "m \<in> set (getCategory cat (matchData (addScores cat clock scores1 scores2 s)))" for m
  proof -
    obtain i where "scoreLine m = expectedLine cat scores1 scores2 i"
      using addScores_member[OF assms mem] by blast
    then show ?thesis
      by (auto simp: scoreLine_def expectedLine_def slot1_def slot2_def split: if_splits)
  qed
  show ?thesis
    unfolding addHandler_addScores
    using addScores_length[OF assms] addScores_lines[OF assms] tot addScores_others
    by blast
qed

theorem ingestion_truncates_and_sums_witness:
  "validateScores [Some 1, Some 2, Some 3] [Some 0, Some 1] \<and>
   length (h2h (matchData (handleH2HAdd sampleClock [Some 1, Some 2, Some 3] [Some 0, Some 1] initialGlobals))) = 2 \<and>
   team1 (matchData (handleH2HAdd sampleClock [Some 1, Some 2, Some 3] [Some 0, Some 1] initialGlobals)) = []"
proof -
  have v: "validateScores [Some 1, Some 2, Some 3] [Some 0, Some 1]"
    by (simp add: validateScores_def isNaN_def)
  note r = ingestion_truncates_and_sums[OF v, of Cat_h2h sampleClock initialGlobals]
  from r have len: "length (getCategory Cat_h2h (matchData
      (addHandler Cat_h2h sampleClock [Some 1, Some 2, Some 3] [Some 0, Some 1] initialGlobals))) = 2"
    by simp
  from r have "Cat_team1 \<noteq> Cat_h2h \<longrightarrow> getCategory Cat_team1 (matchData
      (addHandler Cat_h2h sampleClock [Some 1, Some 2, Some 3] [Some 0, Some 1] initialGlobals)) =
      getCategory Cat_team1 (matchData initialGlobals)"
    by blast
  then have oth: "getCategory Cat_team1 (matchData
      (addHandler Cat_h2h sampleClock [Some 1, Some 2, Some 3] [Some 0, Some 1] initialGlobals)) = []"
    by (simp add: getCategory_def initialGlobals_def)
  show ?thesis
    using v len oth by (simp add: addHandler_def getCategory_def)
qed

lemma handler_member:
  assumes "validateScores scores1 scores2"
    and "m \<in> set (getCategory cat (matchData (addScores cat clock scores1 scores2 s)))"
  shows "\<exists>i < min (length scores1) (length scores2).
           matchNumber m = int i + 1 \<and>
           team1Score m = slot1 cat (the (scores1 ! i)) (the (scores2 ! i)) \<and>
           team2Score m = slot2 cat (the (scores1 ! i)) (the (scores2 ! i))"
  using addScores_member[OF assms] by (auto simp: scoreLine_def expectedLine_def)


section \<open>Clean-sheet check of team 2\<close>

text \<open>
  C8.  The team-2 clean-sheet check tests \<open>team1Score = 0\<close> in both branches of its
  conditional.  In a head-to-head record \<open>team1Score\<close> is team 1's score, and in a team-2
  record it is the opponent's score (the handler passes the opponent's array second and
  \<open>processMatchScore\<close> stores it in the \<open>team1Score\<close> slot); so for every record of either
  sequence the check holds exactly when team 2's opponent scored 0 in that match.
\<close>

theorem team2_clean_sheet_check:
  "(team2CleanSheetCheck m \<longleftrightarrow> team1Score m = 0) \<and>
   (validateScores team1Scores team2Scores \<longrightarrow>
      (\<forall>r \<in> set (h2h (matchData (handleH2HAdd clock team1Scores team2Scores s))).
         \<exists>i < min (length team1Scores) (length team2Scores).
           matchNumber r = int i + 1 \<and> team2Score r = the (team2Scores ! i) \<and>
           (team2CleanSheetCheck r \<longleftrightarrow> the (team1Scores ! i) = 0))) \<and>
   (validateScores ownScores opponentScores \<longrightarrow>
      (\<forall>r \<in> set (team2 (matchData (handleTeam2Add clock ownScores opponentScores s))).
         \<exists>i < min (length ownScores) (length opponentScores).
           matchNumber r = int i + 1 \<and> team2Score r = the (ownScores ! i) \<and>
           (team2CleanSheetCheck r \<longleftrightarrow> the (opponentScores ! i) = 0)))"
proof -
  have a: "team2CleanSheetCheck m \<longleftrightarrow> team1Score m = 0" for m
    by (simp add: team2CleanSheetCheck_def)
  have b: "\<exists>i < min (length team1Scores) (length team2Scores).
           matchNumber r = int i + 1 \<and> team2Score r = the (team2Scores ! i) \<and>
           (team2CleanSheetCheck r \<longleftrightarrow> the (team1Scores ! i) = 0)"
    if v: "validateScores team1Scores team2Scores"
      and mem: "r \<in> set (h2h (matchData (handleH2HAdd clock team1Scores team2Scores s)))" for r
  proof -
    have "r \<in> set (getCategory Cat_h2h (matchData (addScores Cat_h2h clock team1Scores team2Scores s)))"
      using mem by (simp add: handleH2HAdd_def getCategory_def)
    from handler_member[OF v this] show ?thesis
      by (auto simp: a slot1_def slot2_def)
  qed
  have c: "\<exists>i < min (length ownScores) (length opponentScores).
           matchNumber r = int i + 1 \<and> team2Score r = the (ownScores ! i) \<and>
           (team2CleanSheetCheck r \<longleftrightarrow> the (opponentScores ! i) = 0)"
    if v: "validateScores ownScores opponentScores"
      and mem: "r \<in> set (team2 (matchData (handleTeam2Add clock ownScores opponentScores s)))" for r
  proof -
    have "r \<in> set (getCategory Cat_team2 (matchData (addScores Cat_team2 clock ownScores opponentScores s)))"
      using mem by (simp add: handleTeam2Add_def getCategory_def)
    from handler_member[OF v this] show ?thesis
      by (auto simp: a slot1_def slot2_def)
  qed
  show ?thesis using a b c by blast
qed


theorem team2_clean_sheet_check_witness:
  "validateScores [Some 3, Some 2] [Some 0, Some 1] \<and>
   list_all (\<lambda>r. \<exists>i < 2. matchNumber r = int i + 1 \<and>
                     team2Score r = the ([Some 3, Some 2] ! i) \<and>
                     (team2CleanSheetCheck r \<longleftrightarrow> the ([Some 0, Some (1::int)] ! i) = 0))
     (team2 (matchData (handleTeam2Add sampleClock [Some 3, Some 2] [Some 0, Some 1] initialGlobals))) \<and>
   length (team2 (matchData (handleTeam2Add sampleClock [Some 3, Some 2] [Some 0, Some 1] initialGlobals))) = 2"
proof -
  have v: "validateScores [Some 3, Some 2] [Some 0, Some 1]"
    by (simp add: validateScores_def isNaN_def)
  have l: "length (team2 (matchData (handleTeam2Add sampleClock [Some 3, Some 2] [Some 0, Some 1] initialGlobals))) = 2"
    unfolding handleTeam2Add_def using addScores_length[OF v, of Cat_team2] by (simp add: getCategory_def)
  show ?thesis
    using v l team2_clean_sheet_check
      [of "newMatch initialGlobals 0 Cat_team2 1 3 0 1" "[Some 1]" "[Some 0]" sampleClock
          initialGlobals "[Some 3, Some 2]" "[Some 0, Some 1]"]
    by (simp add: list_all_iff numeral_2_eq_2)
qed

section \<open>Rejection by the validation\<close>

text \<open>
  C5.  The analyze handler returns the state unchanged, without reading the betting lines
  and without running the analysis, whenever no match has been entered, or a team name is
  empty after trimming, or the two trimmed names are equal.  In particular this is so with
  rankings 4 and 2 and no scores entered.
\<close>

theorem analyze_rejected:
  "(getTotalMatchCount s = 0 \<or> trim (team1Name s) = [] \<or> trim (team2Name s) = [] \<or>
    trim (team1Name s) = trim (team2Name s) \<longrightarrow>
      \<not> validateInputs confirmed s \<and> analyzeClick form confirmed s = s) \<and>
   (team1Ranking s = 4 \<and> team2Ranking s = 2 \<and>
    h2h (matchData s) = [] \<and> team1 (matchData s) = [] \<and> team2 (matchData s) = [] \<longrightarrow>
      \<not> validateInputs confirmed s \<and> analyzeClick form confirmed s = s)"
  by (auto simp: validateInputs_def analyzeClick_def getTotalMatchCount_def)

theorem analyze_rejected_witness:
  "team1Ranking rankedNoScores = 4 \<and> team2Ranking rankedNoScores = 2 \<and>
   getTotalMatchCount rankedNoScores = 0 \<and>
   analyzeClick sampleLines True rankedNoScores = rankedNoScores \<and>
   trim (team1Name (initialGlobals\<lparr> team1Name := '' Team 2  '' \<rparr>)) =
     trim (team2Name (initialGlobals\<lparr> team1Name := '' Team 2  '' \<rparr>)) \<and>
   analyzeClick sampleLines True (initialGlobals\<lparr> team1Name := '' Team 2  '' \<rparr>) =
     initialGlobals\<lparr> team1Name := '' Team 2  '' \<rparr>"
proof -
  have r: "team1Ranking rankedNoScores = 4" "team2Ranking rankedNoScores = 2"
    "h2h (matchData rankedNoScores) = []" "team1 (matchData rankedNoScores) = []"
    "team2 (matchData rankedNoScores) = []"
    by (simp_all add: rankedNoScores_def handleTeamSetup_def initialGlobals_def)
  have t: "trim (team1Name (initialGlobals\<lparr> team1Name := '' Team 2  '' \<rparr>)) =
           trim (team2Name (initialGlobals\<lparr> team1Name := '' Team 2  '' \<rparr>))"
    by (simp add: initialGlobals_def trim_def isWhiteSpace_def)
  show ?thesis
    using r t analyze_rejected[of rankedNoScores True sampleLines]
      analyze_rejected[of "initialGlobals\<lparr> team1Name := '' Team 2  '' \<rparr>" True sampleLines]
    by (simp add: getTotalMatchCount_def)
qed

section \<open>The score distribution when the exponentials underflow\<close>

lemma fl_zero: "fl 0 = 0"
  by (simp add: fl_def)

lemma exp_850_lower: "(2::real) ^ 1075 \<le> exp 850"
proof -
  have e: "(5 / 2 :: real) \<le> exp 1"
    using exp_lower_Taylor_quadratic[of "1::real"] by simp
  have a: "(2::real) ^ 9 \<le> (5 / 2) ^ 7"
    by (simp add: power_divide)
  have "(2::real) ^ 1075 \<le> 2 ^ (9 * 121)"
    by (rule power_increasing) simp_all
  also have "\<dots> = ((2::real) ^ 9) ^ 121"
    by (rule power_mult)
  also have "\<dots> \<le> ((5 / 2 :: real) ^ 7) ^ 121"
    by (rule power_mono[OF a]) simp
  also have "\<dots> = (5 / 2 :: real) ^ (7 * 121)"
    by (rule power_mult[symmetric])
  also have "\<dots> \<le> (5 / 2 :: real) ^ 850"
    by (rule power_increasing) simp_all
  also have "\<dots> \<le> exp 1 ^ 850"
    by (rule power_mono[OF e]) simp
  also have "\<dots> = exp (850::real)"
    using exp_of_nat_mult[of 850 "1::real"] by simp
  finally show ?thesis .
qed

lemma exp_underflows:
  assumes "850 \<le> lambda"
  shows "fl (exp (- lambda)) = 0"
proof -
  have "exp (850::real) \<le> exp lambda" using assms by simp
  then have "(2::real) ^ 1075 \<le> exp lambda" using exp_850_lower by linarith
  then have "1 / exp lambda \<le> 1 / (2::real) ^ 1075"
    by (intro divide_left_mono) simp_all
  moreover have "\<bar>exp (- lambda)\<bar> = 1 / exp lambda"
    by (simp add: exp_minus inverse_eq_divide)
  ultimately have "\<bar>exp (- lambda)\<bar> \<le> 1 / (2::real) ^ 1075"
    by (simp only:)
  then show ?thesis unfolding fl_def by (simp only: if_True)
qed

lemma fold_from_zero:
  "fold (\<lambda>i result. fl (result * fl (lambda / real i))) is 0 = 0"
  by (induction "is") (simp_all add: fl_zero)

lemma poissonProbability_underflows:
  assumes "850 \<le> lambda"
  shows "poissonProbability k lambda = 0"
proof -
  have "\<not> lambda \<le> 0" using assms by simp
  then show ?thesis
    unfolding poissonProbability_def
    by (simp only: if_False exp_underflows[OF assms] fold_from_zero)
qed

lemma adjustments_of_zero:
  "scoreCorrelation t1 t2 0 = 0" "defensiveCorrelation T t1 t2 0 = 0"
  "scoringCorrelation t1 t2 0 = 0" "highScoringAdjustment t1 t2 0 = 0"
  "commonScorelineAdjustment t1 t2 0 = 0"
  by (simp_all add: scoreCorrelation_def defensiveCorrelation_def scoringCorrelation_def
      highScoringAdjustment_def commonScorelineAdjustment_def fl_zero)

lemma combinedProb_underflows:
  assumes "850 \<le> m1"
  shows "combinedProb T m1 m2 t1 t2 = 0"
  unfolding combinedProb_def Let_def poissonProbability_underflows[OF assms]
  by (simp add: fl_zero adjustments_of_zero)

lemma concat_replicate_replicate:
  "concat (replicate m (replicate n x)) = replicate (m * n) x"
  by (induction m) (simp_all add: replicate_add)

lemma rawCells_underflow:
  assumes "850 \<le> (T / 2) + (M / 2)"
  shows "map probability (rawCells T M) = replicate 25 (Fin 0)"
proof -
  have "map probability (rawCells T M) =
        concat (map (\<lambda>t1::nat. map (\<lambda>t2::nat. Fin 0) [0..<5]) [0..<5])"
    unfolding rawCells_def Let_def
    by (simp add: map_concat comp_def combinedProb_underflows[OF assms] fl_zero)
  also have "\<dots> = replicate 25 (Fin 0)"
    by (simp add: map_replicate_const concat_replicate_replicate)
  finally show ?thesis .
qed

lemma sumProbabilities_map:
  "sumProbabilities cells = foldl jsAdd (Fin 0) (map probability cells)"
  by (simp add: sumProbabilities_def foldl_map)

lemma foldl_zeros: "foldl jsAdd (Fin 0) (replicate n (Fin 0)) = Fin 0"
  by (induction n) simp_all

lemma jsAdd_NaN_right: "jsAdd a NaN = NaN"
  by (cases a) simp_all

lemma foldl_from_NaN: "foldl jsAdd NaN xs = NaN"
  by (induction xs) simp_all

lemma foldl_NaNs: "0 < n \<Longrightarrow> foldl jsAdd a (replicate n NaN) = NaN"
  by (cases n) (simp_all add: jsAdd_NaN_right foldl_from_NaN)

lemma normalizedCells_underflow:
  assumes "850 \<le> (T / 2) + (M / 2)"
  shows "map probability (normalizedCells T M) = replicate 25 NaN"
proof -
  have t: "sumProbabilities (rawCells T M) = Fin 0"
    by (simp only: sumProbabilities_map rawCells_underflow[OF assms] foldl_zeros)
  have "map probability (normalizedCells T M) =
        map (\<lambda>p. jsMul (jsDiv p (Fin 0)) (Fin 100)) (map probability (rawCells T M))"
    unfolding normalizedCells_def Let_def t by (simp add: comp_def)
  also have "\<dots> = replicate 25 NaN"
    by (simp only: rawCells_underflow[OF assms]) simp
  finally show ?thesis .
qed

lemma otherProb_underflow:
  assumes "850 \<le> (T / 2) + (M / 2)"
  shows "otherProb T M = NaN"
  unfolding otherProb_def sumProbabilities_map normalizedCells_underflow[OF assms]
  by (simp add: foldl_NaNs jsSub_def)

lemma insertCell_NaN:
  "\<forall>c \<in> set ys. probability c = NaN \<Longrightarrow> insertCell x ys = x # ys"
  by (cases ys) (simp_all add: staysInFront_def jsSub_def)

lemma sortCells_NaN:
  "\<forall>c \<in> set xs. probability c = NaN \<Longrightarrow> sortCells xs = xs"
  unfolding sortCells_def
  by (induction xs) (simp_all add: insertCell_NaN)

lemma generateScoreDistribution_underflow:
  assumes "850 \<le> (T / 2) + (M / 2)"
  shows "generateScoreDistribution T M = normalizedCells T M"
proof -
  have "\<forall>p \<in> set (map probability (normalizedCells T M)). p = NaN"
    by (simp only: normalizedCells_underflow[OF assms]) simp
  then have n: "\<forall>c \<in> set (normalizedCells T M). probability c = NaN"
    by simp
  show ?thesis
    unfolding generateScoreDistribution_def Let_def otherProb_underflow[OF assms]
    using sortCells_NaN[OF n] by simp
qed

lemma table_underflow:
  assumes "850 \<le> (T / 2) + (M / 2)"
  shows "map probability (generateScoreDistribution T M) = replicate 25 NaN"
    and "sumProbabilities (generateScoreDistribution T M) = NaN"
proof -
  show p: "map probability (generateScoreDistribution T M) = replicate 25 NaN"
    by (simp only: generateScoreDistribution_underflow[OF assms] normalizedCells_underflow[OF assms])
  show "sumProbabilities (generateScoreDistribution T M) = NaN"
    unfolding sumProbabilities_map p by (simp add: foldl_NaNs)
qed

text \<open>The projections of the high-scoring store.\<close>

lemma drawnStore_eq:
  "drawnStore = initialGlobals\<lparr> matchData :=
      \<lparr> h2h = [drawnMatch 0, drawnMatch 1, drawnMatch 2, drawnMatch 3],
        team1 = [], team2 = [] \<rparr> \<rparr>"
  by (simp add: drawnStore_def handleH2HAdd_def addScores_def validateScores_def isNaN_def
      Let_def upt4 processMatchScore_def newMatch_def getCategory_def setCategory_def
      initialGlobals_def drawnMatch_def sampleClock_def weekMs_def)

lemma drawn_fields:
  "h2h (matchData drawnStore) = [drawnMatch 0, drawnMatch 1, drawnMatch 2, drawnMatch 3]"
  "team1 (matchData drawnStore) = []"
  "team2 (matchData drawnStore) = []"
  "team1Name drawnStore = ''Team 1''"
  "team2Name drawnStore = ''Team 2''"
  "matchLocation drawnStore = ''neutral''"
  "matchImportance drawnStore = 1"
  "team1Ranking drawnStore = 0"
  "team2Ranking drawnStore = 0"
  by (simp_all add: drawnStore_eq initialGlobals_def)

lemma drawnMatch_fields:
  "team1Score (drawnMatch i) = 400" "team2Score (drawnMatch i) = 400"
  "totalScore (drawnMatch i) = 800"
  "outcome (drawnMatch i) = ''Draw''"
  "timestamp (drawnMatch i) = 1700000000000 + int i - (4 - int i) * 604800000"
  by (simp_all add: drawnMatch_def sampleClock_def weekMs_def)

lemma drawn_sorted_desc:
  "sort_key (\<lambda>m. - timestamp m) [drawnMatch 0, drawnMatch 1, drawnMatch 2, drawnMatch 3] =
     [drawnMatch 3, drawnMatch 2, drawnMatch 1, drawnMatch 0]"
  by (simp add: drawnMatch_fields)

lemma drawn_averages:
  "calculateOverallTeamAverage drawnStore n b = 400"
  "calculateTeamAverageConceded drawnStore n b = 400"
  by (simp_all add: calculateOverallTeamAverage_def calculateTeamAverageConceded_def Let_def
      drawn_fields drawnMatch_fields getCategory_def)

lemma drawn_strengths:
  "calculateAttackStrength drawnStore n b = 1000 / 3"
  "calculateDefenseStrength drawnStore n b = 1000 / 3"
  by (simp_all add: calculateAttackStrength_def calculateDefenseStrength_def Let_def
      drawn_averages drawn_fields)

lemma drawn_h2h: "calculateH2HAdvantage drawnStore = 0"
  unfolding calculateH2HAdvantage_def Let_def drawn_fields drawn_sorted_desc
  by (simp add: drawnMatch_fields)

lemma drawn_form: "calculateRecentForm drawnStore n b = 13 / 40"
  by (cases b) (simp_all add: calculateRecentForm_def Let_def drawn_fields drawnMatch_fields
      formMatchScore_def)

lemma drawn_sorted_asc:
  "sort_key mr_timestamp
     (map (\<lambda>m. \<lparr> mr_timestamp = timestamp m, mr_score = f m,
                  mr_opponentScore = g m, mr_outcome = outcome m \<rparr>)
        [drawnMatch 0, drawnMatch 1, drawnMatch 2, drawnMatch 3]) =
   map (\<lambda>m. \<lparr> mr_timestamp = timestamp m, mr_score = f m,
                mr_opponentScore = g m, mr_outcome = outcome m \<rparr>)
        [drawnMatch 0, drawnMatch 1, drawnMatch 2, drawnMatch 3]"
  by (simp add: drawnMatch_fields)

lemma drawn_momentum: "calculateMomentumIndex drawnStore n b = 0"
  unfolding calculateMomentumIndex_def Let_def drawn_fields
  by (cases b) (simp_all add: drawn_sorted_asc drawnMatch_fields)

lemma upt14: "[1..<4] = [1, 2, 3]"
  by (simp add: upt_rec)

lemma drawn_consistency: "calculateTeamConsistency drawnStore n b = 1"
  unfolding calculateTeamConsistency_def Let_def drawn_fields
  by (cases b) (simp_all add: drawnMatch_fields resultCode_def upt14)

lemma drawn_trend: "overallTrend (calculateScoringTrends drawnStore) = 1595 / 2"
  unfolding calculateScoringTrends_def Let_def drawn_fields
  by (simp add: drawn_sorted_desc calculateWeightedAverage_def drawnMatch_fields)

lemma drawn_count: "getTotalMatchCount drawnStore = 4"
  by (simp add: getTotalMatchCount_def drawn_fields)

lemma drawn_sufficient: "dataSufficiency (dataQuality (prepareMatchFeatures drawnStore))"
  by (simp add: prepareMatchFeatures_def getTotalMatchCount_def drawn_fields
      MIN_MATCHES_FOR_GOOD_ANALYSIS_def)

lemma drawn_total:
  "calculateModelV1ProjectedTotal drawnStore (prepareMatchFeatures drawnStore) = 204449 / 120"
  unfolding calculateModelV1ProjectedTotal_def Let_def
  by (simp add: prepareMatchFeatures_def drawn_fields drawn_averages drawn_strengths drawn_form
      drawn_consistency drawn_trend drawnMatch_fields drawn_count MIN_H2H_MATCHES_def
      MIN_MATCHES_FOR_GOOD_ANALYSIS_def)

lemma drawn_margin:
  "calculateModelV1ProjectedMargin drawnStore (prepareMatchFeatures drawnStore) = 0"
  unfolding calculateModelV1ProjectedMargin_def Let_def
  by (simp add: prepareMatchFeatures_def drawn_fields drawn_averages drawn_strengths drawn_form
      drawn_momentum drawnMatch_fields drawn_count MIN_H2H_MATCHES_def
      MIN_MATCHES_FOR_GOOD_ANALYSIS_def)

lemma drawn_advantage: "normalizedAdvantage (prepareMatchFeatures drawnStore) = 0"
  by (simp add: normalizedAdvantage_def advantageCoefficient_def attackDifference_def Let_def
      prepareMatchFeatures_def drawn_fields drawn_strengths drawn_form drawn_h2h
      drawn_momentum)

lemma drawn_draw: "clampedDrawProb (prepareMatchFeatures drawnStore) = 5"
  by (simp add: clampedDrawProb_def baseDrawRate_def attackDifference_def Let_def
      prepareMatchFeatures_def drawn_fields drawn_strengths drawn_averages)

lemma drawn_probabilities:
  "calculateModelV1WinProbabilities (prepareMatchFeatures drawnStore) =
     \<lparr> team1WinProb = 95 / 2, team2WinProb = 95 / 2, drawProb = 5 \<rparr>"
proof -
  let ?f = "prepareMatchFeatures drawnStore"
  have n: "team1WinProb (normalizedProbs ?f) = 95 / 2" "team2WinProb (normalizedProbs ?f) = 95 / 2"
    "drawProb (normalizedProbs ?f) = 5"
    by (simp_all add: normalizedProbs_simps drawn_advantage drawn_draw)
  have b: "blendedProbs ?f = normalizedProbs ?f"
    using drawn_sufficient by (rule blendedProbs_sufficient)
  have fl: "team1WinProb (flooredProbs ?f) = 95 / 2" "team2WinProb (flooredProbs ?f) = 95 / 2"
    "drawProb (flooredProbs ?f) = 5"
    by (simp_all add: flooredProbs_def Let_def b n)
  show ?thesis
    by (simp add: calculateModelV1WinProbabilities_def Let_def fl)
qed

lemma drawn_adjustedMargin:
  "snd (ensurePredictionConsistency
          (calculateModelV1WinProbabilities (prepareMatchFeatures drawnStore))
          (calculateModelV1ProjectedMargin drawnStore (prepareMatchFeatures drawnStore))) = 1 / 4"
  unfolding drawn_probabilities drawn_margin
  by (simp add: ensurePredictionConsistency_def Let_def predictedWinner_def
      marginPredictedWinner_def marginThreshold_def)

text \<open>
  C4.  The claim: for every projected total and projected margin the 25 scoreline cells
  plus the optional "Other" bucket of the returned table sum to 100, and "Other" is present
  exactly when the remainder exceeds 0.1.  The script normalizes by dividing every cell by
  the total of the 25 cells, without a guard.  For projected total 2000 and margin 0 both
  means are 1000, \<open>Math.exp(-1000)\<close> underflows to 0, every cell and the total are 0, and
  every normalized cell is \<open>0/0 = NaN\<close>: the table has 25 cells, no "Other" bucket, and
  its sum is \<open>NaN\<close>, not 100.  The same happens for the projections the pipeline computes
  from the high-scoring store: projected total \<open>204449/120\<close>, reconciled margin \<open>1/4\<close>.
\<close>

theorem generateScoreDistribution_not_a_number:
  "map probability (generateScoreDistribution 2000 0) = replicate 25 NaN \<and>
   sumProbabilities (generateScoreDistribution 2000 0) = NaN \<and>
   calculateModelV1ProjectedTotal drawnStore (prepareMatchFeatures drawnStore) = 204449 / 120 \<and>
   snd (ensurePredictionConsistency
          (calculateModelV1WinProbabilities (prepareMatchFeatures drawnStore))
          (calculateModelV1ProjectedMargin drawnStore (prepareMatchFeatures drawnStore))) = 1 / 4 \<and>
   map probability (generateScoreDistribution (204449 / 120) (1 / 4)) = replicate 25 NaN \<and>
   sumProbabilities (generateScoreDistribution (204449 / 120) (1 / 4)) = NaN"
  using table_underflow[of 2000 0] table_underflow[of "204449 / 120" "1 / 4"]
    drawn_total drawn_adjustedMargin
  by simp

section \<open>Repeated analysis\<close>

lemma sameInputs_basic:
  assumes "sameInputs s' s"
  shows "calculateCategoryAverage s' cat prop = calculateCategoryAverage s cat prop"
    and "calculateOverallTeamAverage s' n b = calculateOverallTeamAverage s n b"
    and "calculateTeamAverageConceded s' n b = calculateTeamAverageConceded s n b"
    and "getTotalMatchCount s' = getTotalMatchCount s"
  using assms
  unfolding sameInputs_def calculateCategoryAverage_def calculateOverallTeamAverage_def
    calculateTeamAverageConceded_def getTotalMatchCount_def
  by (elim conjE, simp only: cong: if_cong)+

lemma sameInputs_h2h:
  assumes "sameInputs s' s"
  shows "calculateH2HAdvantage s' = calculateH2HAdvantage s"
  using assms unfolding sameInputs_def calculateH2HAdvantage_def
  by (elim conjE) (simp only: cong: if_cong)

lemma sameInputs_form:
  assumes "sameInputs s' s"
  shows "calculateRecentForm s' n b = calculateRecentForm s n b"
  using assms unfolding sameInputs_def calculateRecentForm_def
  by (elim conjE) (simp only: cong: if_cong)

lemma sameInputs_consistency:
  assumes "sameInputs s' s"
  shows "calculateTeamConsistency s' n b = calculateTeamConsistency s n b"
  using assms unfolding sameInputs_def calculateTeamConsistency_def
  by (elim conjE) (simp only: cong: if_cong)

lemma sameInputs_momentum:
  assumes "sameInputs s' s"
  shows "calculateMomentumIndex s' n b = calculateMomentumIndex s n b"
  using assms unfolding sameInputs_def calculateMomentumIndex_def
  by (elim conjE) (simp only: cong: if_cong)

lemma sameInputs_home:
  assumes "sameInputs s' s"
  shows "calculateHomeAdvantage s' n b = calculateHomeAdvantage s n b"
  using assms unfolding sameInputs_def calculateHomeAdvantage_def
  by (elim conjE) (simp only: cong: if_cong)

lemma sameInputs_trends:
  assumes "sameInputs s' s"
  shows "calculateScoringTrends s' = calculateScoringTrends s"
    and "calculateCleanSheetStats s' = calculateCleanSheetStats s"
  using assms unfolding sameInputs_def calculateScoringTrends_def calculateCleanSheetStats_def
  by (elim conjE, simp only: cong: if_cong)+

lemma sameInputs_strengths:
  assumes "sameInputs s' s"
  shows "calculateAttackStrength s' n b = calculateAttackStrength s n b"
    and "calculateDefenseStrength s' n b = calculateDefenseStrength s n b"
proof -
  have m: "matchData s' = matchData s" using assms by (simp add: sameInputs_def)
  show "calculateAttackStrength s' n b = calculateAttackStrength s n b"
    unfolding calculateAttackStrength_def
    by (simp only: m sameInputs_basic[OF assms] cong: if_cong)
  show "calculateDefenseStrength s' n b = calculateDefenseStrength s n b"
    unfolding calculateDefenseStrength_def
    by (simp only: m sameInputs_basic[OF assms] cong: if_cong)
qed

lemma sameInputs_importance:
  assumes "sameInputs s' s"
  shows "calculateMatchImportancePerformance s' n b = calculateMatchImportancePerformance s n b"
proof -
  have m: "matchData s' = matchData s" using assms by (simp add: sameInputs_def)
  show ?thesis
    unfolding calculateMatchImportancePerformance_def
    by (simp only: m sameInputs_consistency[OF assms] cong: if_cong)
qed

lemma sameInputs_features:
  assumes "sameInputs s' s"
  shows "prepareMatchFeatures s' = prepareMatchFeatures s"
  using assms
  unfolding prepareMatchFeatures_def sameInputs_basic[OF assms] sameInputs_h2h[OF assms]
    sameInputs_form[OF assms] sameInputs_consistency[OF assms] sameInputs_momentum[OF assms]
    sameInputs_home[OF assms] sameInputs_trends[OF assms] sameInputs_strengths[OF assms]
    sameInputs_importance[OF assms] sameInputs_def
  by (elim conjE) (simp only: cong: if_cong)

lemma sameInputs_projections:
  assumes "sameInputs s' s"
  shows "calculateModelV1ProjectedTotal s' f = calculateModelV1ProjectedTotal s f"
    and "calculateModelV1ProjectedMargin s' f = calculateModelV1ProjectedMargin s f"
  using assms
  unfolding sameInputs_def calculateModelV1ProjectedTotal_def calculateModelV1ProjectedMargin_def
  by (elim conjE, simp only: cong: if_cong)+

lemma sameInputs_analysisResults:
  assumes "sameInputs s' s"
  shows "analysisResults s' = analysisResults s"
  using assms
  unfolding analysisResults_def sameInputs_features[OF assms] sameInputs_projections[OF assms]
    sameInputs_def
  by (elim conjE) (simp only: cong: if_cong)

lemma sameInputs_update: "sameInputs (s\<lparr> lastAnalysisResults := r \<rparr>) s"
  by (simp add: sameInputs_def)

lemma analysisResults_ignores_result:
  "analysisResults (s\<lparr> lastAnalysisResults := r \<rparr>) = analysisResults s"
  by (rule sameInputs_analysisResults[OF sameInputs_update])

lemma getTotalMatchCount_ignores_result:
  "getTotalMatchCount (s\<lparr> lastAnalysisResults := r \<rparr>) = getTotalMatchCount s"
  by (simp add: getTotalMatchCount_def)

lemma performAnalysis_previous_result:
  "performAnalysis (s\<lparr> lastAnalysisResults := r \<rparr>) =
     (if getTotalMatchCount s = 0 then s\<lparr> lastAnalysisResults := r \<rparr> else performAnalysis s)"
  by (simp add: performAnalysis_def analysisResults_ignores_result getTotalMatchCount_ignores_result)

lemma performAnalysis_idem: "performAnalysis (performAnalysis s) = performAnalysis s"
proof (cases "getTotalMatchCount s = 0")
  case True
  then show ?thesis by (simp add: performAnalysis_def)
next
  case False
  then have "performAnalysis s = s\<lparr> lastAnalysisResults := Some (analysisResults s) \<rparr>"
    by (simp add: performAnalysis_def)
  then show ?thesis using False by (simp add: performAnalysis_previous_result)
qed

lemma calculateSpreadCover_cong:
  "pointSpread s' = pointSpread s \<Longrightarrow> spreadDirection s' = spreadDirection s \<Longrightarrow>
   calculateSpreadCover s' a b = calculateSpreadCover s a b"
  by (simp add: calculateSpreadCover_def)

lemma updateSpreadCoverCalculations_fields:
  "totalLine (updateSpreadCoverCalculations s) = totalLine s"
  "pointSpread (updateSpreadCoverCalculations s) = pointSpread s"
  "spreadDirection (updateSpreadCoverCalculations s) = spreadDirection s"
  "team1Name (updateSpreadCoverCalculations s) = team1Name s"
  "team2Name (updateSpreadCoverCalculations s) = team2Name s"
  "lastAnalysisResults (updateSpreadCoverCalculations s) = lastAnalysisResults s"
  "getTotalMatchCount (updateSpreadCoverCalculations s) = getTotalMatchCount s"
  by (simp_all add: updateSpreadCoverCalculations_def Let_def getTotalMatchCount_def)

lemma updateSpreadCoverCalculations_idem:
  "updateSpreadCoverCalculations (updateSpreadCoverCalculations s) = updateSpreadCoverCalculations s"
proof -
  have c: "calculateSpreadCover (updateSpreadCoverCalculations s) a b = calculateSpreadCover s a b" for a b
    by (rule calculateSpreadCover_cong) (simp_all add: updateSpreadCoverCalculations_fields)
  show ?thesis
    unfolding updateSpreadCoverCalculations_def[of "updateSpreadCoverCalculations s"]
    unfolding c updateSpreadCoverCalculations_fields
    by (simp add: updateSpreadCoverCalculations_def Let_def comp_def)
qed

lemma updateSpreadCoverCalculations_result:
  "updateSpreadCoverCalculations (s\<lparr> lastAnalysisResults := r \<rparr>) =
     (updateSpreadCoverCalculations s)\<lparr> lastAnalysisResults := r \<rparr>"
  by (simp add: updateSpreadCoverCalculations_def Let_def calculateSpreadCover_def)

lemma processAllMatchData_result:
  "processAllMatchData form (s\<lparr> lastAnalysisResults := r \<rparr>) =
     (processAllMatchData form s)\<lparr> lastAnalysisResults := r \<rparr>"
proof -
  have "s\<lparr> lastAnalysisResults := r, totalLine := a, pointSpread := b, spreadDirection := c \<rparr> =
        s\<lparr> totalLine := a, pointSpread := b, spreadDirection := c, lastAnalysisResults := r \<rparr>" for a b c
    by simp
  then show ?thesis
    by (simp only: processAllMatchData_def updateSpreadCoverCalculations_result)
qed

lemma processAllMatchData_idem:
  "processAllMatchData form (processAllMatchData form s) = processAllMatchData form s"
proof -
  define t where "t = s\<lparr> totalLine := (case bf_betting_line form of None \<Rightarrow> 0 | Some v \<Rightarrow> v),
           pointSpread := (case bf_point_spread form of None \<Rightarrow> 0 | Some v \<Rightarrow> v),
           spreadDirection := bf_spread_direction form \<rparr>"
  have p: "processAllMatchData form s = updateSpreadCoverCalculations t"
    by (simp add: processAllMatchData_def t_def)
  have "(updateSpreadCoverCalculations t)
          \<lparr> totalLine := (case bf_betting_line form of None \<Rightarrow> 0 | Some v \<Rightarrow> v),
            pointSpread := (case bf_point_spread form of None \<Rightarrow> 0 | Some v \<Rightarrow> v),
            spreadDirection := bf_spread_direction form \<rparr> = updateSpreadCoverCalculations t"
    by (simp add: updateSpreadCoverCalculations_def Let_def t_def)
  then have "processAllMatchData form (updateSpreadCoverCalculations t) =
             updateSpreadCoverCalculations (updateSpreadCoverCalculations t)"
    by (simp only: processAllMatchData_def)
  then show ?thesis
    by (simp only: p updateSpreadCoverCalculations_idem)
qed

lemma processAllMatchData_keeps:
  "getTotalMatchCount (processAllMatchData form s) = getTotalMatchCount s"
  "team1Name (processAllMatchData form s) = team1Name s"
  "team2Name (processAllMatchData form s) = team2Name s"
  by (simp_all add: processAllMatchData_def updateSpreadCoverCalculations_def Let_def
      getTotalMatchCount_def)

lemma performAnalysis_keeps:
  "getTotalMatchCount (performAnalysis s) = getTotalMatchCount s"
  "team1Name (performAnalysis s) = team1Name s"
  "team2Name (performAnalysis s) = team2Name s"
  by (simp_all add: performAnalysis_def getTotalMatchCount_def)

lemma validateInputs_analyzeClick:
  "validateInputs c (analyzeClick form c' s) = validateInputs c s"
  by (simp add: validateInputs_def analyzeClick_def processAllMatchData_keeps performAnalysis_keeps)

lemma analyzeClick_twice:
  assumes "validateInputs c2 s \<longleftrightarrow> validateInputs c1 s"
  shows "analyzeClick form c2 (analyzeClick form c1 s) = analyzeClick form c1 s"
proof (cases "validateInputs c1 s")
  case False
  then show ?thesis using assms by (simp add: analyzeClick_def)
next
  case True
  then have n: "getTotalMatchCount s \<noteq> 0" by (auto simp: validateInputs_def split: if_splits)
  let ?t = "processAllMatchData form s"
  have nt: "getTotalMatchCount ?t \<noteq> 0" using n by (simp add: processAllMatchData_keeps)
  have a1: "analyzeClick form c1 s = ?t\<lparr> lastAnalysisResults := Some (analysisResults ?t) \<rparr>"
    using True nt by (simp add: analyzeClick_def performAnalysis_def)
  have v2: "validateInputs c2 (analyzeClick form c1 s)"
    using assms True by (simp add: validateInputs_analyzeClick)
  have "analyzeClick form c2 (analyzeClick form c1 s) =
        performAnalysis (processAllMatchData form (?t\<lparr> lastAnalysisResults := Some (analysisResults ?t) \<rparr>))"
    using v2 unfolding a1 by (simp add: analyzeClick_def)
  also have "\<dots> = performAnalysis (?t\<lparr> lastAnalysisResults := Some (analysisResults ?t) \<rparr>)"
    by (simp only: processAllMatchData_result processAllMatchData_idem)
  also have "\<dots> = performAnalysis ?t"
    using nt by (simp add: performAnalysis_previous_result)
  also have "\<dots> = analyzeClick form c1 s"
    using True by (simp add: analyzeClick_def)
  finally show ?thesis .
qed

lemma sampleStore_facts:
  "getTotalMatchCount sampleStore = 2"
  "team1Name sampleStore = ''Team 1''"
  "team2Name sampleStore = ''Team 2''"
proof -
  have v: "validateScores [Some 1, Some 2, Some 3] [Some 0, Some 1]"
    by (simp add: validateScores_def isNaN_def)
  have l: "length (getCategory Cat_h2h (matchData sampleStore)) = 2"
    unfolding sampleStore_def handleH2HAdd_def using addScores_length[OF v] by simp
  have o: "getCategory c (matchData sampleStore) = []" if "c \<noteq> Cat_h2h" for c
    unfolding sampleStore_def handleH2HAdd_def using addScores_others[OF that]
    by (simp add: initialGlobals_def getCategory_def split: category.splits)
  show "getTotalMatchCount sampleStore = 2"
    using l o[of Cat_team1] o[of Cat_team2] by (simp add: getTotalMatchCount_def getCategory_def)
  have n: "team1Name (fold (\<lambda>i st. processMatchScore (now i) cat (int i + 1) (a i) (b i) (ts i) st) is s)
             = team1Name s \<and>
           team2Name (fold (\<lambda>i st. processMatchScore (now i) cat (int i + 1) (a i) (b i) (ts i) st) is s)
             = team2Name s" for now cat a b ts "is" s
    by (induction "is" arbitrary: s) (simp_all add: processMatchScore_def)
  show "team1Name sampleStore = ''Team 1''"
    unfolding sampleStore_def handleH2HAdd_def addScores_unfold[OF v]
    by (simp only: n) (simp add: initialGlobals_def)
  show "team2Name sampleStore = ''Team 2''"
    unfolding sampleStore_def handleH2HAdd_def addScores_unfold[OF v]
    by (simp only: n) (simp add: initialGlobals_def)
qed

lemma sampleStore_valid: "validateInputs True sampleStore"
  by (simp add: validateInputs_def sampleStore_facts trim_def isWhiteSpace_def)

text \<open>
  C9.  Running the analysis again on the state it produced changes nothing, and two
  clicks on the analyze button with the same betting-line form, both accepted or both
  rejected by the validation, leave the same state and the same stored result as one click.
  The stored result is a function of the match-record store and the configuration alone:
  two states that agree on these yield the same result object.  Numbers are reals here, so
  equality of the result stands for bit-identity of the doubles.
\<close>

theorem analysis_is_idempotent:
  "performAnalysis (performAnalysis s) = performAnalysis s \<and>
   ((validateInputs c2 s \<longleftrightarrow> validateInputs c1 s) \<longrightarrow>
      analyzeClick form c2 (analyzeClick form c1 s) = analyzeClick form c1 s \<and>
      lastAnalysisResults (analyzeClick form c2 (analyzeClick form c1 s)) =
        lastAnalysisResults (analyzeClick form c1 s)) \<and>
   (sameInputs s' s \<longrightarrow> analysisResults s' = analysisResults s)"
  using performAnalysis_idem[of s] analyzeClick_twice[of c2 s c1 form]
    sameInputs_analysisResults[of s' s]
  by simp

theorem analysis_is_idempotent_witness:
  "validateInputs True sampleStore \<and>
   analyzeClick sampleLines True (analyzeClick sampleLines True sampleStore) =
     analyzeClick sampleLines True sampleStore \<and>
   lastAnalysisResults (analyzeClick sampleLines True sampleStore) =
     Some (analysisResults (processAllMatchData sampleLines sampleStore)) \<and>
   analysisResults (sampleStore\<lparr> lastAnalysisResults := Some (analysisResults sampleStore) \<rparr>) =
     analysisResults sampleStore"
proof -
  have c: "getTotalMatchCount (processAllMatchData sampleLines sampleStore) \<noteq> 0"
    by (simp add: processAllMatchData_keeps sampleStore_facts)
  have r: "lastAnalysisResults (analyzeClick sampleLines True sampleStore) =
           Some (analysisResults (processAllMatchData sampleLines sampleStore))"
    using sampleStore_valid c by (simp add: analyzeClick_def performAnalysis_def)
  have i: "sameInputs (sampleStore\<lparr> lastAnalysisResults := Some (analysisResults sampleStore) \<rparr>)
             sampleStore"
    by (rule sameInputs_update)
  show ?thesis
    using sampleStore_valid r i
      analysis_is_idempotent[of sampleStore True True sampleLines
        "sampleStore\<lparr> lastAnalysisResults := Some (analysisResults sampleStore) \<rparr>"]
    by simp
qed

end
